theory Spec2Isabelle
  imports
    Complex_Main
    "HOL-Library.Sublist"
    "HOL-Library.Char_ord"
    "HOL-Library.List_Lexorder"
    "HOL-Library.Log_Nat"
begin

section \<open>Strings, exceptions and timestamps\<close>

text \<open>
  The cleaning functions of \<^verbatim>\<open>covid_project/data_cleaning.py\<close> work on pandas frames.
  A frame is modelled as the list of its rows, in frame order; every row carries its index
  label, because \<^verbatim>\<open>df.drop(...index)\<close> and \<^verbatim>\<open>df.loc[index, ...] = v\<close> address rows by
  label and not by position. Strings are \<^typ>\<open>string\<close>; the model of \<^verbatim>\<open>str.lower\<close> covers
  the ASCII letters. A cell of a \<^verbatim>\<open>float64\<close> column is modelled by the real number it
  denotes, with \<open>None\<close> for NaN; a cell of an \<^verbatim>\<open>int64\<close> column by the integer it holds.
\<close>

definition lower_char :: "char \<Rightarrow> char" where
  "lower_char c =
     (case map_of (zip ''ABCDEFGHIJKLMNOPQRSTUVWXYZ'' ''abcdefghijklmnopqrstuvwxyz'') c of
        None \<Rightarrow> c
      | Some l \<Rightarrow> l)"

definition lower :: "string \<Rightarrow> string" where
  "lower s = map lower_char s"

text \<open>\<^verbatim>\<open>Series.str.contains(pat)\<close> for a pattern without regular expression operators.\<close>

fun str_contains :: "string \<Rightarrow> string \<Rightarrow> bool" where
  "str_contains pat [] = (pat = [])"
| "str_contains pat (c # cs) = (prefix pat (c # cs) \<or> str_contains pat cs)"

text \<open>
  \<^verbatim>\<open>re.sub(suf + "$", "", s)\<close> for a literal \<open>suf\<close>: Python's \<^verbatim>\<open>$\<close> matches at the end
  of the string and also just before a newline that ends the string.
\<close>

definition re_sub_at_end :: "string \<Rightarrow> string \<Rightarrow> string" where
  "re_sub_at_end suf s =
     (if suffix suf s then take (length s - length suf) s
      else if suffix (suf @ [CHR 0x0A]) s
        then take (length s - Suc (length suf)) s @ [CHR 0x0A]
      else s)"

text \<open>
  The exceptions the cleaning functions can raise, by their Python class. The failed casts
  of \<^verbatim>\<open>astype(np.int64)\<close> on a column with NaN, the parse and range errors of
  \<^verbatim>\<open>pd.to_datetime\<close> and \<^verbatim>\<open>min()\<close> of an empty column are all \<^verbatim>\<open>ValueError\<close>s.
  The \<^verbatim>\<open>AssertionError\<close> carries the list that the assertion message prints.
\<close>

datatype error =
    AssertionError "string list"
  | ValueError
  | AttributeError
  | TypeError
  | KeyError
  | ConnectionError

type_synonym timestamp = int

text \<open>
  A timestamp is a day number (days since 1970-01-01): both feeds hold dates without a
  time of day. \<open>to_datetime\<close> models \<^verbatim>\<open>pd.to_datetime\<close> on the strings of the form
  \<^verbatim>\<open>YYYY-MM-DD\<close> (the format the source names in \<^verbatim>\<open>format='%Y-%m-%d'\<close>): a day
  that is not in the calendar and a day outside the range of \<^verbatim>\<open>datetime64[ns]\<close>
  (1677-09-22 to 2262-04-11) is the \<^verbatim>\<open>ValueError\<close>. Other spellings of a date are
  outside the model: they are given the same error value, and no theorem below relies on
  a date string being rejected.
\<close>

definition digit :: "char \<Rightarrow> int option" where
  "digit c = map_of (zip ''0123456789'' [0, 1, 2, 3, 4, 5, 6, 7, 8, 9]) c"

definition number :: "string \<Rightarrow> int option" where
  "number cs = map_option (foldl (\<lambda>a d. 10 * a + d) 0) (those (map digit cs))"

definition is_leap :: "int \<Rightarrow> bool" where
  "is_leap y = (y mod 4 = 0 \<and> (y mod 100 \<noteq> 0 \<or> y mod 400 = 0))"

definition days_in_month :: "int \<Rightarrow> int \<Rightarrow> int" where
  "days_in_month y m =
     (if m = 2 then (if is_leap y then 29 else 28)
      else if m = 4 \<or> m = 6 \<or> m = 9 \<or> m = 11 then 30 else 31)"

definition days_from_civil :: "int \<Rightarrow> int \<Rightarrow> int \<Rightarrow> timestamp" where
  "days_from_civil y m d =
     (let y' = (if m \<le> 2 then y - 1 else y);
          era = y' div 400;
          yoe = y' - era * 400;
          doy = (153 * (if m > 2 then m - 3 else m + 9) + 2) div 5 + d - 1;
          doe = yoe * 365 + yoe div 4 - yoe div 100 + doy
      in era * 146097 + doe - 719468)"

definition to_datetime :: "string \<Rightarrow> error + timestamp" where
  "to_datetime s =
     (if length s = 10 \<and> s ! 4 = CHR ''-'' \<and> s ! 7 = CHR ''-'' then
        (case (number (take 4 s), number (take 2 (drop 5 s)), number (drop 8 s)) of
           (Some y, Some m, Some d) \<Rightarrow>
             if 1 \<le> m \<and> m \<le> 12 \<and> 1 \<le> d \<and> d \<le> days_in_month y m
                \<and> - 106751 \<le> days_from_civil y m d \<and> days_from_civil y m d \<le> 106751
             then Inr (days_from_civil y m d) else Inl ValueError
         | _ \<Rightarrow> Inl ValueError)
      else Inl ValueError)"

section \<open>The case and death table\<close>

text \<open>
  A row of the raw feed, with the columns the cleaning reads (the cumulative columns are
  only renamed and are left out), and a row of the cleaned table. \<open>None\<close> is a null cell.
  The two derived per-capita columns that \<^verbatim>\<open>clean_covid_data\<close> appends last are IEEE
  quotients (a zero population gives \<^verbatim>\<open>inf\<close> or \<^verbatim>\<open>nan\<close>); nothing below reads them and
  they are left out as well.
\<close>

record raw_case =
  label :: int
  date :: string
  location_type :: string
  fips_code :: "int option"
  location_name :: string
  state :: string
  total_population :: "int option"
  new_cases :: "int option"
  new_deaths :: "int option"
  new_cases_per_100_000 :: "real option"
  new_deaths_per_100_000 :: "real option"
  new_cases_7_day_rolling_avg :: "real option"
  new_deaths_7_day_rolling_avg :: "real option"

record case_record =
  label :: int
  date :: timestamp
  location_type :: string
  fips_code :: int
  county :: string
  state :: string
  full_loc_name :: string
  total_population :: int
  new_cases :: int
  new_deaths :: int
  new_cases_1e6 :: real
  new_deaths_1e6 :: real
  new_cases_7day :: "real option"
  new_deaths_7day :: "real option"

text \<open>\<^verbatim>\<open>df.drop(labels)\<close>: every row whose label is among \<open>labels\<close> goes.\<close>

definition drop_rows :: "('r \<Rightarrow> int) \<Rightarrow> int list \<Rightarrow> 'r list \<Rightarrow> 'r list" where
  "drop_rows lab labels df = filter (\<lambda>r. lab r \<notin> set labels) df"

definition max_date :: string where
  "max_date = ''2021-12-31''"

text \<open>\<^verbatim>\<open>df = df[df["date"] < max_date]\<close>, a comparison of strings.\<close>

definition restrict_date :: "raw_case list \<Rightarrow> raw_case list" where
  "restrict_date df = filter (\<lambda>r. raw_case.date r < max_date) df"

text \<open>\<^verbatim>\<open>df.drop(df[~df["location_type"].isin(["county"])].index)\<close>\<close>

definition drop_non_county :: "raw_case list \<Rightarrow> raw_case list" where
  "drop_non_county df =
     drop_rows raw_case.label
       (map raw_case.label (filter (\<lambda>r. raw_case.location_type r \<notin> set [''county'']) df)) df"

text \<open>\<^verbatim>\<open>df.drop(df[df["state"].isin(["Puerto Rico", "District of Columbia"])].index)\<close>\<close>

definition drop_pr_dc :: "raw_case list \<Rightarrow> raw_case list" where
  "drop_pr_dc df =
     drop_rows raw_case.label
       (map raw_case.label
          (filter (\<lambda>r. raw_case.state r \<in> set [''Puerto Rico'', ''District of Columbia'']) df)) df"

text \<open>
  The two population overrides, on the lowercased county name; every other row keeps its
  cell.
\<close>

definition population :: "raw_case \<Rightarrow> int option" where
  "population r =
     (if lower (location_name r) = ''chugach'' \<and> raw_case.state r = ''Alaska'' then Some 7102
      else if lower (location_name r) = ''copper river'' \<and> raw_case.state r = ''Alaska''
        then Some 2617
      else raw_case.total_population r)"

text \<open>\<^verbatim>\<open>fillna(0)\<close> on a count, and \<^verbatim>\<open>clip(lower=0)\<close> followed by \<^verbatim>\<open>fillna(0)\<close>.\<close>

definition fillna0 :: "int option \<Rightarrow> int" where
  "fillna0 x = (case x of None \<Rightarrow> 0 | Some n \<Rightarrow> n)"

definition clip_fillna :: "real option \<Rightarrow> real" where
  "clip_fillna x = (case x of None \<Rightarrow> 0 | Some v \<Rightarrow> max 0 v)"

text \<open>
  The columns of one row after the casts, renamings and fills that precede the seed
  period step. The three casts that can raise (\<^verbatim>\<open>fips_code\<close> and \<^verbatim>\<open>total_population\<close>
  to \<^verbatim>\<open>np.int64\<close>, \<^verbatim>\<open>date\<close> to a timestamp) give \<open>None\<close> for the row.
\<close>

definition typed :: "raw_case \<Rightarrow> case_record option" where
  "typed r =
     (case (raw_case.fips_code r, to_datetime (raw_case.date r), population r) of
        (Some f, Inr t, Some p) \<Rightarrow>
          Some \<lparr> label = raw_case.label r,
                 date = t,
                 location_type = raw_case.location_type r,
                 fips_code = f,
                 county = lower (location_name r),
                 state = raw_case.state r,
                 full_loc_name = lower (location_name r) @ '', '' @ raw_case.state r,
                 total_population = p,
                 new_cases = fillna0 (raw_case.new_cases r),
                 new_deaths = fillna0 (raw_case.new_deaths r),
                 new_cases_1e6 = clip_fillna (new_cases_per_100_000 r),
                 new_deaths_1e6 = clip_fillna (new_deaths_per_100_000 r),
                 new_cases_7day = new_cases_7_day_rolling_avg r,
                 new_deaths_7day = new_deaths_7_day_rolling_avg r \<rparr>
      | _ \<Rightarrow> None)"

definition seed_cutoff :: timestamp where
  "seed_cutoff = days_from_civil 2020 1 30"

text \<open>
  \<^verbatim>\<open>df[cols] = df[cols].mask(df["date"] < cutoff, df[cols].fillna(0))\<close>: where the
  condition holds the cell is taken from the filled copy, elsewhere it stays.
\<close>

definition fill_seed :: "case_record list \<Rightarrow> case_record list" where
  "fill_seed df =
     map (\<lambda>r. if case_record.date r < seed_cutoff
              then r\<lparr> new_cases_7day := Some (case new_cases_7day r of None \<Rightarrow> 0 | Some v \<Rightarrow> v),
                      new_deaths_7day := Some (case new_deaths_7day r of None \<Rightarrow> 0 | Some v \<Rightarrow> v) \<rparr>
              else r) df"

definition days_7 :: int where
  "days_7 = 7"

text \<open>
  \<^verbatim>\<open>np.sum\<close> of \<^verbatim>\<open>int64\<close> values is an \<^verbatim>\<open>int64\<close>: the sum wraps
  around at \<open>2 ^ 63\<close>.
\<close>

definition wrap64 :: "int \<Rightarrow> int" where
  "wrap64 x = (x + 2 ^ 63) mod 2 ^ 64 - 2 ^ 63"

definition np_sum :: "int list \<Rightarrow> int" where
  "np_sum xs = wrap64 (sum_list xs)"

text \<open>
  The quotient \<^verbatim>\<open>np.sum(...) / 7\<close> is numpy's \<^verbatim>\<open>true_divide\<close>: both integers are
  converted to \<^verbatim>\<open>float64\<close> and divided there. \<open>float64\<close> rounds a real number to the
  nearest number with a significand of 53 bits, ties to the even significand; the values
  rounded here (an \<^verbatim>\<open>int64\<close>, and its quotient by 7) are zero or lie in the range of the
  normal numbers, where this is the rounding of IEEE 754. The exponent of a real \<open>x\<close> other
  than zero is the integer \<open>e\<close> with \<open>2 ^ e \<le> \<bar>x\<bar> < 2 ^ (e + 1)\<close>; it is read off the number
  of bits of \<open>\<lfloor>\<bar>x\<bar>\<rfloor>\<close> when \<open>1 \<le> \<bar>x\<bar>\<close>, and of \<open>\<lceil>1 / \<bar>x\<bar>\<rceil> - 1\<close> otherwise.
\<close>

definition round_even :: "real \<Rightarrow> int" where
  "round_even y =
     (let f = \<lfloor>y\<rfloor> in
      if y - of_int f < 1 / 2 then f
      else if 1 / 2 < y - of_int f then f + 1
      else if even f then f else f + 1)"

definition exponent :: "real \<Rightarrow> int" where
  "exponent x =
     (if 1 \<le> \<bar>x\<bar> then int (floorlog 2 (nat \<lfloor>\<bar>x\<bar>\<rfloor>)) - 1
      else - int (floorlog 2 (nat (\<lceil>1 / \<bar>x\<bar>\<rceil> - 1))))"

definition float64 :: "real \<Rightarrow> real" where
  "float64 x =
     (if x = 0 then 0
      else let ulp = 2 powi (exponent x - 52)
           in of_int (round_even (x / ulp)) * ulp)"

definition true_divide :: "int \<Rightarrow> int \<Rightarrow> real" where
  "true_divide a b = float64 (float64 (of_int a) / float64 (of_int b))"

text \<open>
  The sum that one iteration of the loops takes: column \<open>col\<close> of the rows of \<open>df\<close> with
  the location of \<open>data\<close> and a date in the seven days that end with the date of \<open>data\<close>.
\<close>

definition window_sum :: "(case_record \<Rightarrow> int) \<Rightarrow> case_record list \<Rightarrow> case_record \<Rightarrow> int" where
  "window_sum col df data =
     np_sum (map col
       (filter (\<lambda>r. full_loc_name r = full_loc_name data
                    \<and> (case_record.date r \<le> case_record.date data
                       \<and> case_record.date r > case_record.date data - days_7)) df))"

text \<open>
  One iteration: \<^verbatim>\<open>df.loc[index, ["new_cases_7day"]] = np.sum(...) / 7\<close> writes the
  quotient into every row that carries the label \<open>index\<close> of the iterated row.
\<close>

definition recalc_case :: "case_record \<Rightarrow> case_record list \<Rightarrow> case_record list" where
  "recalc_case data df =
     map (\<lambda>r. if case_record.label r = case_record.label data
              then r\<lparr> new_cases_7day := Some (true_divide (window_sum new_cases df data) 7) \<rparr>
              else r) df"

definition recalc_death :: "case_record \<Rightarrow> case_record list \<Rightarrow> case_record list" where
  "recalc_death data df =
     map (\<lambda>r. if case_record.label r = case_record.label data
              then r\<lparr> new_deaths_7day := Some (true_divide (window_sum new_deaths df data) 7) \<rparr>
              else r) df"

text \<open>
  The two loops. Both lists of null rows are taken before the first loop runs, as in the
  source; each loop visits its rows in frame order.
\<close>

definition nulls_case7day :: "case_record list \<Rightarrow> case_record list" where
  "nulls_case7day df = filter (\<lambda>r. new_cases_7day r = None) df"

definition nulls_death7day :: "case_record list \<Rightarrow> case_record list" where
  "nulls_death7day df = filter (\<lambda>r. new_deaths_7day r = None) df"

definition recalc :: "case_record list \<Rightarrow> case_record list" where
  "recalc df = fold recalc_death (nulls_death7day df) (fold recalc_case (nulls_case7day df) df)"

text \<open>
  The cleaning of a raw frame, from \<^verbatim>\<open>max_date = "2021-12-31"\<close> to the last loop. The cast
  of \<^verbatim>\<open>fips_code\<close> runs before Puerto Rico and the District of Columbia are dropped, the
  other two casts after; the steps in between work cell by cell and are collected in
  \<open>typed\<close>.
\<close>

definition clean_cases :: "raw_case list \<Rightarrow> error + case_record list" where
  "clean_cases df =
     (let df1 = drop_non_county (restrict_date df) in
      if \<exists>r \<in> set df1. raw_case.fips_code r = None then Inl ValueError
      else
        (case those (map typed (drop_pr_dc df1)) of
           None \<Rightarrow> Inl ValueError
         | Some df2 \<Rightarrow> Inr (recalc (fill_seed df2))))"

section \<open>The policy table\<close>

text \<open>
  The package \<^verbatim>\<open>us\<close> is not part of the repository; its tables are a parameter. A state
  has a postal abbreviation, a name and a FIPS code (a string of digits).
  \<^verbatim>\<open>us.states.mapping(a, b)\<close> is the dictionary from field \<open>a\<close> to field \<open>b\<close> over the
  states and territories (of two entries with one key the later one stays), and
  \<^verbatim>\<open>us.states.lookup\<close> is used on postal abbreviations only.
\<close>

record us_state =
  abbr :: string
  name :: string
  fips :: string

record us =
  STATES :: "us_state list"
  STATES_AND_TERRITORIES :: "us_state list"

definition states_mapping :: "us \<Rightarrow> (us_state \<Rightarrow> string) \<Rightarrow> (us_state \<Rightarrow> string) \<Rightarrow> string \<rightharpoonup> string" where
  "states_mapping u a b = map_of (rev (map (\<lambda>s. (a s, b s)) (STATES_AND_TERRITORIES u)))"

definition lookup :: "us \<Rightarrow> string \<Rightarrow> us_state option" where
  "lookup u a = find (\<lambda>s. abbr s = a) (STATES_AND_TERRITORIES u)"

text \<open>
  A row of the raw policy feed, without the four columns that the first statement of
  \<^verbatim>\<open>clean_policy_data\<close> drops, and a row of the cleaned policy table.
\<close>

record raw_policy =
  label :: int
  state_id :: string
  county :: "string option"
  fips_code :: "int option"
  policy_level :: string
  date :: string
  policy_type :: string
  start_stop :: string

record policy_record =
  label :: int
  state :: string
  county :: string
  fips_code :: int
  policy_level :: string
  date :: timestamp
  policy_type :: string
  start_stop :: string

text \<open>\<^verbatim>\<open>Series.unique()\<close>: the distinct values in the order of their first occurrence.\<close>

definition unique :: "'a list \<Rightarrow> 'a list" where
  "unique xs = rev (remdups (rev xs))"

text \<open>\<^verbatim>\<open>df.drop(df[~df["state_id"].isin(abbr)].index)\<close>\<close>

definition drop_non_states :: "us \<Rightarrow> raw_policy list \<Rightarrow> raw_policy list" where
  "drop_non_states u df =
     drop_rows raw_policy.label
       (map raw_policy.label
          (filter (\<lambda>r. state_id r \<notin> set (map abbr (STATES u))) df)) df"

text \<open>
  \<^verbatim>\<open>df.replace(to_replace=us.states.mapping("abbr", "name"), inplace=True)\<close>: a cell that is
  a key of the dictionary becomes the key's value, in every column that holds strings.
\<close>

definition replace_cell :: "(string \<rightharpoonup> string) \<Rightarrow> string \<Rightarrow> string" where
  "replace_cell d v = (case d v of None \<Rightarrow> v | Some w \<Rightarrow> w)"

definition replace_row :: "(string \<rightharpoonup> string) \<Rightarrow> raw_policy \<Rightarrow> raw_policy" where
  "replace_row d r =
     r\<lparr> state_id := replace_cell d (state_id r),
        raw_policy.county := map_option (replace_cell d) (raw_policy.county r),
        raw_policy.policy_level := replace_cell d (raw_policy.policy_level r),
        raw_policy.date := replace_cell d (raw_policy.date r),
        raw_policy.policy_type := replace_cell d (raw_policy.policy_type r),
        raw_policy.start_stop := replace_cell d (raw_policy.start_stop r) \<rparr>"

text \<open>
  The county column: nulls become \<^verbatim>\<open>statewide\<close>, the value is lowercased, and the four
  substitutions run one after the other.
\<close>

definition county_match :: string where
  "county_match = '' county''"

definition munici_match :: string where
  "munici_match = '' municipality''"

definition city_match :: string where
  "city_match = '' city''"

definition Borough_match :: string where
  "Borough_match = '' borough''"

definition strip_suffixes :: "string \<Rightarrow> string" where
  "strip_suffixes s =
     re_sub_at_end Borough_match
       (re_sub_at_end city_match
          (re_sub_at_end munici_match
             (re_sub_at_end county_match s)))"

definition clean_county :: "string option \<Rightarrow> string" where
  "clean_county c =
     strip_suffixes (lower (case c of None \<Rightarrow> ''statewide'' | Some v \<Rightarrow> v))"

text \<open>
  The county column when the reconciliation runs: the rows of the states, after the
  replacement of the state names and the cleaning of the county.
\<close>

definition cleaned_county :: "raw_policy \<Rightarrow> string" where
  "cleaned_county r = clean_county (raw_policy.county r)"

definition county_column :: "us \<Rightarrow> raw_policy list \<Rightarrow> string list" where
  "county_column u df =
     map cleaned_county
       (map (replace_row (states_mapping u abbr name)) (drop_non_states u df))"

text \<open>The reconciliation with the case table, on the cleaned county column.\<close>

definition locs :: "case_record list \<Rightarrow> string list" where
  "locs timeseries_df = unique (map case_record.county timeseries_df)"

definition mismatches :: "string list \<Rightarrow> case_record list \<Rightarrow> string list" where
  "mismatches counties timeseries_df =
     filter (\<lambda>county. county \<notin> set (locs timeseries_df))
       (unique (filter (\<lambda>county. county \<noteq> ''statewide'') counties))"

text \<open>
  The FIPS code of a state level row:
  \<^verbatim>\<open>np.int64(us.states.lookup(us.states.mapping("name", "abbr").get(data.state)).fips)\<close>.
  \<^verbatim>\<open>lookup\<close> on \<^verbatim>\<open>None\<close> is a \<^verbatim>\<open>TypeError\<close>, \<^verbatim>\<open>.fips\<close> on \<^verbatim>\<open>None\<close> an
  \<^verbatim>\<open>AttributeError\<close>.
\<close>

definition state_fips :: "us \<Rightarrow> string \<Rightarrow> error + int" where
  "state_fips u st =
     (case states_mapping u name abbr st of
        None \<Rightarrow> Inl TypeError
      | Some a \<Rightarrow>
          (case lookup u a of
             None \<Rightarrow> Inl AttributeError
           | Some s \<Rightarrow> (case number (fips s) of None \<Rightarrow> Inl ValueError | Some n \<Rightarrow> Inr n)))"

fun fips_loop :: "us \<Rightarrow> raw_policy list \<Rightarrow> raw_policy list \<Rightarrow> error + raw_policy list" where
  "fips_loop u [] df = Inr df"
| "fips_loop u (data # rest) df =
     (if raw_policy.policy_level data = ''state'' then
        (case state_fips u (state_id data) of
           Inl e \<Rightarrow> Inl e
         | Inr v \<Rightarrow>
             fips_loop u rest
               (map (\<lambda>r. if raw_policy.label r = raw_policy.label data
                        then r\<lparr> raw_policy.fips_code := Some v \<rparr> else r) df))
      else fips_loop u rest df)"

text \<open>
  The repair of the dates: the rows whose date contains \<^verbatim>\<open>0020\<close> get
  \<^verbatim>\<open>'2020' + elem[4:]\<close>.
\<close>

definition bad_mask :: "string \<Rightarrow> bool" where
  "bad_mask d = str_contains ''0020'' d"

definition fix_date :: "string \<Rightarrow> string" where
  "fix_date d = (if bad_mask d then ''2020'' @ drop 4 d else d)"

text \<open>The policy names: nine replacements of whole cells, then lowercase.\<close>

definition policy_replacements_dict :: "(string \<times> string) list" where
  "policy_replacements_dict =
     [(''Stop Initiation Of Evictions Overall Or Due To Covid Related Issues'',
       ''Stop Initiation Of Evictions''),
      (''Modify Medicaid Requirements With 1135 Waivers Date Of CMS Approval'',
       ''Modify Medicaid Requirements''),
      (''Stop Enforcement Of Evictions Overall Or Due To Covid Related Issues'',
       ''Stop Enforcement Of Evictions''),
      (''Mandate Face Mask Use By All Individuals In Public Facing Businesses'',
       ''Mandate Face Masks In Businesses''),
      (''Mandate Face Mask Use By All Individuals In Public Spaces'',
       ''Mandate Face Masks In Public Spaces''),
      (''Reopened ACA Enrollment Using a Special Enrollment Period'',
       ''ACA Special Enrollment Period''),
      (''Suspended Elective Medical Dental Procedures'',
       ''Suspend Elective Dental Procedures''),
      (''Allow Expand Medicaid Telehealth Coverage'',
       ''Expand Medicaid Telehealth Coverage''),
      (''Renter Grace Period Or Use Of Security Deposit To Pay Rent'',
       ''Grace Period / Security Deposit for Rent'')]"

definition clean_policy_type :: "string \<Rightarrow> string" where
  "clean_policy_type p =
     lower (fold (\<lambda>(key, v) x. if x = key then v else x) policy_replacements_dict p)"

definition rename_policy :: "policy_record \<Rightarrow> policy_record" where
  "rename_policy r =
     r\<lparr> policy_record.policy_type := clean_policy_type (policy_record.policy_type r) \<rparr>"

definition policies_drop :: "string list" where
  "policies_drop = [''phase 1'', ''phase 2'', ''phase 3'', ''phase 4'', ''phase 5'', ''new phase'']"

text \<open>
  The columns of one policy row after the casts: \<^verbatim>\<open>fips_code\<close> to \<^verbatim>\<open>np.int64\<close> and the
  repaired \<^verbatim>\<open>date\<close> to a timestamp; a cast that raises gives \<open>None\<close>.
\<close>

definition typed_policy :: "raw_policy \<Rightarrow> policy_record option" where
  "typed_policy r =
     (case (raw_policy.fips_code r, to_datetime (fix_date (raw_policy.date r))) of
        (Some f, Inr t) \<Rightarrow>
          Some \<lparr> policy_record.label = raw_policy.label r,
                 policy_record.state = state_id r,
                 policy_record.county = cleaned_county r,
                 policy_record.fips_code = f,
                 policy_record.policy_level = raw_policy.policy_level r,
                 policy_record.date = t,
                 policy_record.policy_type = raw_policy.policy_type r,
                 policy_record.start_stop = raw_policy.start_stop r \<rparr>
      | _ \<Rightarrow> None)"

text \<open>
  \<^verbatim>\<open>df.drop(df[(df['date'] < min(...)) | (df['date'] > max(...))].index)\<close>, with the two
  bounds already taken.
\<close>

definition drop_out_of_range :: "timestamp \<Rightarrow> timestamp \<Rightarrow> policy_record list \<Rightarrow> policy_record list" where
  "drop_out_of_range lo hi df =
     drop_rows policy_record.label
       (map policy_record.label
          (filter (\<lambda>r. policy_record.date r < lo \<or> policy_record.date r > hi) df)) df"

definition drop_phases :: "policy_record list \<Rightarrow> policy_record list" where
  "drop_phases df =
     drop_rows policy_record.label
       (map policy_record.label
          (filter (\<lambda>r. policy_record.policy_type r \<in> set policies_drop) df)) df"

text \<open>
  The cleaning of a raw policy frame against the cleaned case table \<open>timeseries_df\<close>, from
  the state filter to the drop of the phase rows, in the order of the source: the
  assertion comes before the FIPS loop, the casts after it, and \<^verbatim>\<open>min\<close> and \<^verbatim>\<open>max\<close>
  of the case dates (a \<^verbatim>\<open>ValueError\<close> on an empty table) after the dates are parsed.
\<close>

definition clean_policies :: "us \<Rightarrow> raw_policy list \<Rightarrow> case_record list \<Rightarrow> error + policy_record list" where
  "clean_policies u df timeseries_df =
     (let df1 = map (replace_row (states_mapping u abbr name)) (drop_non_states u df);
          ms = mismatches (county_column u df) timeseries_df
      in if ms \<noteq> [] then Inl (AssertionError ms)
         else
           (case fips_loop u df1 df1 of
              Inl e \<Rightarrow> Inl e
            | Inr df2 \<Rightarrow>
                if \<exists>r \<in> set df2. raw_policy.fips_code r = None then Inl ValueError
                else
                  (case those (map typed_policy df2) of
                     None \<Rightarrow> Inl ValueError
                   | Some df3 \<Rightarrow>
                       (case map case_record.date timeseries_df of
                          [] \<Rightarrow> Inl ValueError
                        | d # ds \<Rightarrow>
                            Inr (drop_phases
                                  (map rename_policy
                                     (drop_out_of_range (fold min ds d) (fold max ds d) df3)))))))"

section \<open>Files and the two entry points\<close>

text \<open>
  The files under the paths that the entry points read and write. A file is modelled by the
  table that \<^verbatim>\<open>read_csv(..., index_col=0)\<close> and the parse of the date column return for it.
  A file that holds another table than the one expected is outside the model; reading it is
  given the error value \<open>KeyError\<close>.
\<close>

datatype table =
    RawCases "raw_case list"
  | CleanCases "case_record list"
  | RawPolicies "raw_policy list"
  | CleanPolicies "policy_record list"

type_synonym files = "string \<rightharpoonup> table"

text \<open>
  What lies outside the functions: the frames that the two remote sources return (\<open>None\<close>:
  the download fails), and \<open>read_float\<close>, the float that the default parser of
  \<^verbatim>\<open>read_csv\<close> returns for the text that \<^verbatim>\<open>to_csv\<close> writes for a float. The parser is
  not required to return the float that was written.
\<close>

record remote =
  data_world :: "raw_case list option"
  healthdata_gov :: "raw_policy list option"
  read_float :: "real \<Rightarrow> real"

text \<open>
  A row of the raw feed and a row of the cleaned table when they are read back from the
  file that \<^verbatim>\<open>to_csv\<close> wrote: labels, strings, integers, dates and null cells are read as
  they were written, the floats through the parser. The policy tables hold no floats.
\<close>

definition read_csv_raw_case :: "(real \<Rightarrow> real) \<Rightarrow> raw_case \<Rightarrow> raw_case" where
  "read_csv_raw_case rf r =
     r\<lparr> new_cases_per_100_000 := map_option rf (new_cases_per_100_000 r),
        new_deaths_per_100_000 := map_option rf (new_deaths_per_100_000 r),
        new_cases_7_day_rolling_avg := map_option rf (new_cases_7_day_rolling_avg r),
        new_deaths_7_day_rolling_avg := map_option rf (new_deaths_7_day_rolling_avg r) \<rparr>"

definition read_csv_case :: "(real \<Rightarrow> real) \<Rightarrow> case_record \<Rightarrow> case_record" where
  "read_csv_case rf r =
     r\<lparr> new_cases_1e6 := rf (new_cases_1e6 r),
        new_deaths_1e6 := rf (new_deaths_1e6 r),
        new_cases_7day := map_option rf (new_cases_7day r),
        new_deaths_7day := map_option rf (new_deaths_7day r) \<rparr>"

text \<open>
  \<^verbatim>\<open>load_covid_data(path, force_reload)\<close> and \<^verbatim>\<open>load_policy_data(path, force_reload)\<close>:
  the file is read when it is there, else the frame is downloaded, written and returned.
\<close>

definition load_covid_data :: "remote \<Rightarrow> files \<Rightarrow> string \<Rightarrow> bool \<Rightarrow> (error + raw_case list) \<times> files" where
  "load_covid_data net fs path force_reload =
     (if fs path \<noteq> None \<and> \<not> force_reload then
        (case fs path of Some (RawCases df) \<Rightarrow> (Inr df, fs) | _ \<Rightarrow> (Inl KeyError, fs))
      else
        (case data_world net of
           None \<Rightarrow> (Inl ConnectionError, fs)
         | Some df \<Rightarrow>
             (Inr df, fs(path \<mapsto> RawCases (map (read_csv_raw_case (read_float net)) df)))))"

definition load_policy_data :: "remote \<Rightarrow> files \<Rightarrow> string \<Rightarrow> bool \<Rightarrow> (error + raw_policy list) \<times> files" where
  "load_policy_data net fs path force_reload =
     (if fs path \<noteq> None \<and> \<not> force_reload then
        (case fs path of Some (RawPolicies df) \<Rightarrow> (Inr df, fs) | _ \<Rightarrow> (Inl KeyError, fs))
      else
        (case healthdata_gov net of
           None \<Rightarrow> (Inl ConnectionError, fs)
         | Some df \<Rightarrow> (Inr df, fs(path \<mapsto> RawPolicies df))))"

text \<open>
  \<^verbatim>\<open>clean_covid_data(df, path, clean_path, force_reload, force_reclean)\<close>: the result or
  the exception, and the files afterwards. \<open>save_cases\<close> is the part from
  \<^verbatim>\<open>max_date = "2021-12-31"\<close> on: the cleaning and \<^verbatim>\<open>df.to_csv(clean_path)\<close>. The
  frame that is returned is the one in memory; the file holds what a later
  \<^verbatim>\<open>read_csv\<close> makes of it.
\<close>

definition save_cases ::
  "remote \<Rightarrow> files \<Rightarrow> string \<Rightarrow> raw_case list \<Rightarrow> (error + case_record list) \<times> files" where
  "save_cases net fs clean_path df =
     (case clean_cases df of
        Inl e \<Rightarrow> (Inl e, fs)
      | Inr out \<Rightarrow>
          (Inr out, fs(clean_path \<mapsto> CleanCases (map (read_csv_case (read_float net)) out))))"

definition clean_covid_data ::
  "remote \<Rightarrow> files \<Rightarrow> raw_case list option \<Rightarrow> string \<Rightarrow> string \<Rightarrow> bool \<Rightarrow> bool
     \<Rightarrow> (error + case_record list) \<times> files" where
  "clean_covid_data net fs df path clean_path force_reload force_reclean =
     (case df of
        None \<Rightarrow>
          if fs clean_path \<noteq> None \<and> \<not> force_reclean then
            (case fs clean_path of
               Some (CleanCases out) \<Rightarrow> (Inr out, fs)
             | _ \<Rightarrow> (Inl KeyError, fs))
          else
            (case load_covid_data net fs path force_reload of
               (Inl e, fs') \<Rightarrow> (Inl e, fs')
             | (Inr raw, fs') \<Rightarrow> save_cases net fs' clean_path raw)
      | Some raw \<Rightarrow> save_cases net fs clean_path raw)"

text \<open>
  \<^verbatim>\<open>clean_policy_data(df, cleaned_timeseries_path, path, clean_path, force_reload,
  force_reclean)\<close>. The case table is fetched by
  \<^verbatim>\<open>clean_covid_data(df=None, clean_path=cleaned_timeseries_path)\<close>, with the defaults of
  the other arguments.
\<close>

definition save_policies ::
  "us \<Rightarrow> remote \<Rightarrow> files \<Rightarrow> string \<Rightarrow> string \<Rightarrow> raw_policy list
     \<Rightarrow> (error + policy_record list) \<times> files" where
  "save_policies u net fs cleaned_timeseries_path clean_path df =
     (case clean_covid_data net fs None ''./data/covid_timeseries.csv'' cleaned_timeseries_path
             False False of
        (Inl e, fs') \<Rightarrow> (Inl e, fs')
      | (Inr timeseries_df, fs') \<Rightarrow>
          (case clean_policies u df timeseries_df of
             Inl e \<Rightarrow> (Inl e, fs')
           | Inr out \<Rightarrow> (Inr out, fs'(clean_path \<mapsto> CleanPolicies out))))"

definition clean_policy_data ::
  "us \<Rightarrow> remote \<Rightarrow> files \<Rightarrow> raw_policy list option \<Rightarrow> string \<Rightarrow> string \<Rightarrow> string \<Rightarrow> bool \<Rightarrow> bool
     \<Rightarrow> (error + policy_record list) \<times> files" where
  "clean_policy_data u net fs df cleaned_timeseries_path path clean_path force_reload force_reclean =
     (case df of
        None \<Rightarrow>
          if fs clean_path \<noteq> None \<and> \<not> force_reclean then
            (case fs clean_path of
               Some (CleanPolicies out) \<Rightarrow> (Inr out, fs)
             | _ \<Rightarrow> (Inl KeyError, fs))
          else
            (case load_policy_data net fs path force_reload of
               (Inl e, fs') \<Rightarrow> (Inl e, fs')
             | (Inr raw, fs') \<Rightarrow> save_policies u net fs' cleaned_timeseries_path clean_path raw)
      | Some raw \<Rightarrow> save_policies u net fs cleaned_timeseries_path clean_path raw)"

text \<open>
  Whether \<^verbatim>\<open>re.search(suf + "$", s)\<close> finds a match, and the four tokens in the order in
  which the source substitutes them.
\<close>

definition re_search_at_end :: "string \<Rightarrow> string \<Rightarrow> bool" where
  "re_search_at_end suf s = (suffix suf s \<or> suffix (suf @ [CHR 0x0A]) s)"

definition suffix_tokens :: "string list" where
  "suffix_tokens = [county_match, munici_match, city_match, Borough_match]"

section \<open>Notions for the statements\<close>

text \<open>The rows of a raw frame that the three filters of the cleaning keep.\<close>

definition kept_rows :: "raw_case list \<Rightarrow> raw_case list" where
  "kept_rows df = drop_pr_dc (drop_non_county (restrict_date df))"

text \<open>
  What the two loops leave in one row when no two rows carry the same label: a null average
  becomes the quotient of the window sum of the row by seven, any other average stays.
\<close>

definition recalc_row :: "case_record list \<Rightarrow> case_record \<Rightarrow> case_record" where
  "recalc_row df r =
     r\<lparr> new_cases_7day :=
          (case new_cases_7day r of
             None \<Rightarrow> Some (true_divide (window_sum new_cases df r) 7)
           | Some v \<Rightarrow> Some v),
        new_deaths_7day :=
          (case new_deaths_7day r of
             None \<Rightarrow> Some (true_divide (window_sum new_deaths df r) 7)
           | Some v \<Rightarrow> Some v) \<rparr>"

text \<open>The pair that identifies a cleaned record.\<close>

definition fips_date :: "case_record \<Rightarrow> int \<times> timestamp" where
  "fips_date r = (case_record.fips_code r, case_record.date r)"

text \<open>The two cell assignments of the loops, and the columns a window sum reads.\<close>

definition set_cases_7day :: "real \<Rightarrow> case_record \<Rightarrow> case_record" where
  "set_cases_7day x r = r\<lparr> new_cases_7day := Some x \<rparr>"

definition set_deaths_7day :: "real \<Rightarrow> case_record \<Rightarrow> case_record" where
  "set_deaths_7day x r = r\<lparr> new_deaths_7day := Some x \<rparr>"

definition window_cols :: "(case_record \<Rightarrow> int) \<Rightarrow> case_record list \<Rightarrow> (string \<times> timestamp \<times> int) list" where
  "window_cols col df = map (\<lambda>r. (full_loc_name r, case_record.date r, col r)) df"

section \<open>Example tables\<close>

text \<open>
  Small tables on which the theorems below are instantiated: two states and a territory,
  a cleaned case table with two counties of California, and raw policy frames.
\<close>

definition example_us :: us where
  "example_us =
     \<lparr> STATES =
         [\<lparr> abbr = ''CA'', name = ''California'', fips = ''06'' \<rparr>,
          \<lparr> abbr = ''TX'', name = ''Texas'', fips = ''48'' \<rparr>],
       STATES_AND_TERRITORIES =
         [\<lparr> abbr = ''CA'', name = ''California'', fips = ''06'' \<rparr>,
          \<lparr> abbr = ''TX'', name = ''Texas'', fips = ''48'' \<rparr>,
          \<lparr> abbr = ''PR'', name = ''Puerto Rico'', fips = ''72'' \<rparr>] \<rparr>"

definition case_row ::
  "int \<Rightarrow> timestamp \<Rightarrow> int \<Rightarrow> string \<Rightarrow> string \<Rightarrow> int \<Rightarrow> real option \<Rightarrow> int \<Rightarrow> real option
     \<Rightarrow> case_record" where
  "case_row i t f c s n a nd ad =
     \<lparr> case_record.label = i, case_record.date = t, case_record.location_type = ''county'',
       case_record.fips_code = f, case_record.county = c, case_record.state = s,
       full_loc_name = c @ '', '' @ s, case_record.total_population = 1000,
       case_record.new_cases = n, case_record.new_deaths = nd,
       new_cases_1e6 = 0, new_deaths_1e6 = 0,
       new_cases_7day = a, new_deaths_7day = ad \<rparr>"

definition example_timeseries :: "case_record list" where
  "example_timeseries =
     [case_row 0 (days_from_civil 2020 3 1) 6059 ''orange'' ''California'' 7 (Some 1) 0 (Some 0),
      case_row 1 (days_from_civil 2020 3 10) 6029 ''kern'' ''California'' 14 (Some 2) 0 (Some 0)]"

definition policy_row ::
  "int \<Rightarrow> string \<Rightarrow> string option \<Rightarrow> int option \<Rightarrow> string \<Rightarrow> string \<Rightarrow> string \<Rightarrow> raw_policy" where
  "policy_row i s c f l d p =
     \<lparr> raw_policy.label = i, state_id = s, raw_policy.county = c, raw_policy.fips_code = f,
       raw_policy.policy_level = l, raw_policy.date = d, raw_policy.policy_type = p,
       raw_policy.start_stop = ''start'' \<rparr>"

definition cleaned_policy ::
  "int \<Rightarrow> string \<Rightarrow> string \<Rightarrow> int \<Rightarrow> string \<Rightarrow> timestamp \<Rightarrow> string \<Rightarrow> policy_record" where
  "cleaned_policy i s c f l t p =
     \<lparr> policy_record.label = i, policy_record.state = s, policy_record.county = c,
       policy_record.fips_code = f, policy_record.policy_level = l, policy_record.date = t,
       policy_record.policy_type = p, policy_record.start_stop = ''start'' \<rparr>"

definition example_policies :: "raw_policy list" where
  "example_policies =
     [policy_row 0 ''CA'' None None ''state'' ''0020-03-05'' ''Shelter in Place'',
      policy_row 1 ''CA'' (Some ''Orange County'') (Some 6059) ''county'' ''2020-03-02''
        ''Allow Expand Medicaid Telehealth Coverage'',
      policy_row 2 ''CA'' (Some ''Kern County'') (Some 6029) ''county'' ''2020-07-01''
        ''Shelter in Place'',
      policy_row 3 ''PR'' None None ''state'' ''2020-03-03'' ''Shelter in Place'',
      policy_row 4 ''TX'' None (Some 48) ''TX'' ''2020-03-04'' ''Phase 1'',
      policy_row 5 ''TX'' None None ''state'' ''2020-03-06'' ''TX'']"

definition example_cleaned_policies :: "policy_record list" where
  "example_cleaned_policies =
     [cleaned_policy 0 ''California'' ''statewide'' 6 ''state'' 18326 ''shelter in place'',
      cleaned_policy 1 ''California'' ''orange'' 6059 ''county'' 18323
        ''expand medicaid telehealth coverage'',
      cleaned_policy 5 ''Texas'' ''statewide'' 48 ''state'' 18327 ''texas'']"

definition example_mismatched_policies :: "raw_policy list" where
  "example_mismatched_policies =
     [policy_row 0 ''TX'' (Some ''Foo County'') (Some 48001) ''county'' ''2020-03-02''
        ''Shelter in Place'',
      policy_row 1 ''CA'' (Some ''Bar city'') (Some 6001) ''county'' ''2020-03-03''
        ''Shelter in Place'',
      policy_row 2 ''CA'' (Some ''Orange County'') (Some 6059) ''county'' ''2020-03-04''
        ''Shelter in Place'',
      policy_row 3 ''TX'' (Some ''Foo County'') (Some 48001) ''county'' ''2020-03-05''
        ''Shelter in Place'']"

definition example_files :: files where
  "example_files = Map.empty(''./data/covid_timeseries_cleaned.csv'' \<mapsto> CleanCases example_timeseries)"

text \<open>
  No remote source answers; a second setting in which the policy feed can be downloaded.
  The parser of both reads every float as it was written.
\<close>

definition example_remote :: remote where
  "example_remote = \<lparr> data_world = None, healthdata_gov = None, read_float = (\<lambda>x. x) \<rparr>"

definition example_policy_remote :: remote where
  "example_policy_remote =
     \<lparr> data_world = None, healthdata_gov = Some example_mismatched_policies,
       read_float = (\<lambda>x. x) \<rparr>"


text \<open>
  A raw case frame: a county with two days before the seed cutoff, the first with null
  averages, and with ten consecutive days in March 2020, the eighth with null averages; a
  second county; and three rows that the filters drop. Below it the cleaned table, and a
  raw frame that holds one row twice.
\<close>

definition raw_row ::
  "int \<Rightarrow> string \<Rightarrow> string \<Rightarrow> int \<Rightarrow> string \<Rightarrow> string \<Rightarrow> int option \<Rightarrow> real option \<Rightarrow> int option
     \<Rightarrow> real option \<Rightarrow> raw_case" where
  "raw_row i d ty f loc st n a nd ad =
     \<lparr> raw_case.label = i, raw_case.date = d, raw_case.location_type = ty,
       raw_case.fips_code = Some f, location_name = loc, raw_case.state = st,
       raw_case.total_population = Some 1000, raw_case.new_cases = n, raw_case.new_deaths = nd,
       new_cases_per_100_000 = None, new_deaths_per_100_000 = None,
       new_cases_7_day_rolling_avg = a, new_deaths_7_day_rolling_avg = ad \<rparr>"

definition example_cases :: "raw_case list" where
  "example_cases =
     [raw_row 0 ''2020-01-25'' ''county'' 6059 ''Orange'' ''California'' (Some 3) None None None,
      raw_row 1 ''2020-01-26'' ''county'' 6059 ''Orange'' ''California'' (Some 4) (Some (3 / 2))
        (Some 0) (Some 0),
      raw_row 2 ''2020-03-01'' ''county'' 6059 ''Orange'' ''California'' (Some 1) (Some 1)
        (Some 0) (Some 0),
      raw_row 3 ''2020-03-02'' ''county'' 6059 ''Orange'' ''California'' (Some 2) (Some 1)
        (Some 0) (Some 0),
      raw_row 4 ''2020-03-03'' ''county'' 6059 ''Orange'' ''California'' (Some 3) (Some 1)
        (Some 7) (Some 0),
      raw_row 5 ''2020-03-04'' ''county'' 6059 ''Orange'' ''California'' (Some 4) (Some 1)
        (Some 0) (Some 0),
      raw_row 6 ''2020-03-05'' ''county'' 6059 ''Orange'' ''California'' (Some 5) (Some 1)
        (Some 0) (Some 0),
      raw_row 7 ''2020-03-06'' ''county'' 6059 ''Orange'' ''California'' (Some 6) (Some 1)
        (Some 0) (Some 0),
      raw_row 8 ''2020-03-07'' ''county'' 6059 ''Orange'' ''California'' (Some 7) (Some 1)
        (Some 0) (Some 0),
      raw_row 9 ''2020-03-08'' ''county'' 6059 ''Orange'' ''California'' (Some 8) None
        (Some 7) None,
      raw_row 10 ''2020-03-09'' ''county'' 6059 ''Orange'' ''California'' (Some 9) (Some 1)
        (Some 0) (Some 0),
      raw_row 11 ''2020-03-10'' ''county'' 6059 ''Orange'' ''California'' (Some 10) (Some 1)
        (Some 0) (Some 0),
      raw_row 12 ''2020-03-08'' ''county'' 6029 ''Kern'' ''California'' (Some 700) None
        (Some 0) (Some 0),
      raw_row 13 ''2020-03-05'' ''state'' 6 ''California'' ''California'' (Some 1000) None
        (Some 0) (Some 0),
      raw_row 14 ''2020-03-06'' ''county'' 72127 ''San Juan'' ''Puerto Rico'' (Some 50) None
        (Some 0) (Some 0),
      raw_row 15 ''2021-12-31'' ''county'' 6059 ''Orange'' ''California'' (Some 5) None
        (Some 0) (Some 0)]"

definition example_cleaned_cases :: "case_record list" where
  "example_cleaned_cases =
     [case_row 0 18286 6059 ''orange'' ''California'' 3 (Some 0) 0 (Some 0),
      case_row 1 18287 6059 ''orange'' ''California'' 4 (Some (3 / 2)) 0 (Some 0),
      case_row 2 18322 6059 ''orange'' ''California'' 1 (Some 1) 0 (Some 0),
      case_row 3 18323 6059 ''orange'' ''California'' 2 (Some 1) 0 (Some 0),
      case_row 4 18324 6059 ''orange'' ''California'' 3 (Some 1) 7 (Some 0),
      case_row 5 18325 6059 ''orange'' ''California'' 4 (Some 1) 0 (Some 0),
      case_row 6 18326 6059 ''orange'' ''California'' 5 (Some 1) 0 (Some 0),
      case_row 7 18327 6059 ''orange'' ''California'' 6 (Some 1) 0 (Some 0),
      case_row 8 18328 6059 ''orange'' ''California'' 7 (Some 1) 0 (Some 0),
      case_row 9 18329 6059 ''orange'' ''California'' 8 (Some 5) 7 (Some 2),
      case_row 10 18330 6059 ''orange'' ''California'' 9 (Some 1) 0 (Some 0),
      case_row 11 18331 6059 ''orange'' ''California'' 10 (Some 1) 0 (Some 0),
      case_row 12 18329 6029 ''kern'' ''California'' 700 (Some 100) 0 (Some 0)]"

definition example_duplicate_cases :: "raw_case list" where
  "example_duplicate_cases =
     [raw_row 0 ''2020-03-01'' ''county'' 6059 ''Orange'' ''California'' (Some 1) (Some 1)
        (Some 0) (Some 0),
      raw_row 1 ''2020-03-01'' ''county'' 6059 ''Orange'' ''California'' (Some 1) (Some 1)
        (Some 0) (Some 0)]"

text \<open>
  Two raw frames in which two rows carry the same index label: two counties on one day,
  and one county on a day before the seed cutoff and on a day after it.
\<close>

definition example_shared_label_cases :: "raw_case list" where
  "example_shared_label_cases =
     [raw_row 0 ''2020-03-01'' ''county'' 6059 ''Orange'' ''California'' (Some 7) None
        (Some 0) (Some 0),
      raw_row 0 ''2020-03-01'' ''county'' 6029 ''Kern'' ''California'' (Some 21) None
        (Some 0) (Some 0)]"

definition example_shared_label_seed :: "raw_case list" where
  "example_shared_label_seed =
     [raw_row 0 ''2020-01-25'' ''county'' 6059 ''Orange'' ''California'' (Some 3) None None None,
      raw_row 0 ''2020-03-01'' ''county'' 6059 ''Orange'' ''California'' (Some 7) None
        (Some 14) None]"

text \<open>Files with both cleaned tables cached.\<close>

definition example_cached_files :: files where
  "example_cached_files =
     example_files(''./data/covid_policies_cleaned.csv'' \<mapsto> CleanPolicies [])"

text \<open>A policy row without its FIPS code: what the FIPS loop leaves untouched.\<close>

definition erase_fips :: "raw_policy \<Rightarrow> raw_policy" where
  "erase_fips r = r\<lparr> raw_policy.fips_code := None \<rparr>"

section \<open>Properties\<close>

subsection \<open>Sums and quotients\<close>

text \<open>
  A sum inside the range of \<^verbatim>\<open>int64\<close> does not wrap. The exponent that \<open>float64\<close> uses
  is the floor of the binary logarithm.
\<close>

lemma wrap64_id: "- (2 ^ 63) \<le> x \<Longrightarrow> x < 2 ^ 63 \<Longrightarrow> wrap64 x = x"
  by (simp add: wrap64_def)

lemma np_sum_in_range:
  "- (2 ^ 63) \<le> sum_list xs \<Longrightarrow> sum_list xs < 2 ^ 63 \<Longrightarrow> np_sum xs = sum_list xs"
  by (simp add: np_sum_def wrap64_id)

lemma exponent_ge1:
  assumes "1 \<le> y"
  shows "int (floorlog 2 (nat \<lfloor>y\<rfloor>)) - 1 = \<lfloor>log 2 y\<rfloor>"
proof -
  define n where "n = nat \<lfloor>y\<rfloor>"
  have n: "1 \<le> n" "real n \<le> y" "y - real n < 1" "0 \<le> y - real n"
    using assms unfolding n_def by (auto simp: le_nat_iff) linarith+
  have "0 \<le> log 2 (real n)" using n(1) by simp
  then have "int (floorlog 2 n) - 1 = \<lfloor>log 2 (real n)\<rfloor>"
    using n(1) by (simp add: floorlog_def)
  also have "\<dots> = \<lfloor>log 2 (real n + (y - real n))\<rfloor>"
    using floor_log_add_eqI [of 2 n "y - real n"] n by simp
  finally show ?thesis unfolding n_def by simp
qed

lemma exponent_lt1:
  assumes "0 < y" "y < 1"
  shows "- int (floorlog 2 (nat (\<lceil>1 / y\<rceil> - 1))) = \<lfloor>log 2 y\<rfloor>"
proof -
  define t where "t = 1 / y"
  define k where "k = nat (\<lceil>t\<rceil> - 1)"
  have t: "1 < t" using assms by (simp add: t_def)
  then have "2 \<le> \<lceil>t\<rceil>" by linarith
  then have k: "1 \<le> k" "real k < t" "t \<le> real k + 1"
    unfolding k_def by (auto simp: le_nat_iff) linarith+
  define j where "j = nat \<lfloor>log 2 (real k)\<rfloor>"
  have "0 \<le> log 2 (real k)" using k(1) by simp
  then have jj: "\<lfloor>log 2 (real k)\<rfloor> = int j" unfolding j_def by simp
  then have b: "2 ^ j \<le> k" "k < 2 ^ (j + 1)"
    using floor_log_nat_eq_powr_iff [of 2 k j] k(1) by simp_all
  then have "real k + 1 \<le> 2 ^ (j + 1)"
    by (metis Suc_leI of_nat_Suc of_nat_le_iff of_nat_numeral of_nat_power Suc_eq_plus1 add.commute)
  with k have up: "t \<le> 2 ^ (j + 1)" by linarith
  have "(2::real) ^ j \<le> real k" using b(1)
    by (metis of_nat_le_iff of_nat_numeral of_nat_power)
  with k have lo: "2 ^ j < t" by linarith
  have fl: "floorlog 2 k = j + 1" using k(1) jj by (simp add: floorlog_def)
  have y: "y = 1 / t" using assms by (simp add: t_def)
  have e1: "real_of_int (- int (j + 1)) = - real (j + 1)"
    and e2: "real_of_int (- int (j + 1) + 1) = - real j" by simp_all
  have p1: "(2::real) powr real_of_int (- int (j + 1)) = inverse (2 ^ (j + 1))"
    unfolding e1 by (simp only: powr_minus powr_realpow [OF zero_less_numeral])
  have p2: "(2::real) powr real_of_int (- int (j + 1) + 1) = inverse (2 ^ j)"
    unfolding e2 by (simp only: powr_minus powr_realpow [OF zero_less_numeral])
  have yi: "y = inverse t" unfolding y by (simp add: inverse_eq_divide)
  have "2 powr real_of_int (- int (j + 1)) \<le> y"
    unfolding p1 yi using up t by (intro le_imp_inverse_le) simp_all
  moreover have "y < 2 powr real_of_int (- int (j + 1) + 1)"
    unfolding p2 yi using lo by (intro less_imp_inverse_less) simp_all
  ultimately have "\<lfloor>log 2 y\<rfloor> = - int (j + 1)"
    using floor_log_eq_powr_iff [of y 2 "- int (j + 1)"] assms by simp
  then show ?thesis using fl unfolding k_def t_def by simp
qed

lemma exponent_floor_log: "x \<noteq> 0 \<Longrightarrow> exponent x = \<lfloor>log 2 \<bar>x\<bar>\<rfloor>"
  using exponent_ge1 [of "\<bar>x\<bar>"] exponent_lt1 [of "\<bar>x\<bar>"]
  by (auto simp: exponent_def)

subsection \<open>The county column\<close>

lemma re_sub_at_end_no_match:
  "\<not> re_search_at_end suf s \<Longrightarrow> re_sub_at_end suf s = s"
  by (simp add: re_sub_at_end_def re_search_at_end_def)

lemma re_sub_at_end_append: "re_sub_at_end suf (t @ suf) = t"
  by (simp add: re_sub_at_end_def suffix_def)

lemma token_not_at_end_of_other:
  "x \<in> set suffix_tokens \<Longrightarrow> y \<in> set suffix_tokens \<Longrightarrow> x \<noteq> y \<Longrightarrow> \<not> re_search_at_end x (t @ y)"
  by (auto simp: suffix_tokens_def re_search_at_end_def county_match_def munici_match_def
      city_match_def Borough_match_def suffix_to_prefix)

lemma strip_one:
  assumes "suf \<in> set suffix_tokens" "\<forall>x \<in> set suffix_tokens. \<not> re_search_at_end x t"
  shows "strip_suffixes (t @ suf) = t"
proof -
  have t: "re_sub_at_end x t = t" if "x \<in> set suffix_tokens" for x
    using that assms(2) by (simp add: re_sub_at_end_no_match)
  have o: "re_sub_at_end x (t @ suf) = t @ suf" if "x \<in> set suffix_tokens" "x \<noteq> suf" for x
    using that assms(1) by (simp add: re_sub_at_end_no_match token_not_at_end_of_other)
  have mem: "county_match \<in> set suffix_tokens" "munici_match \<in> set suffix_tokens"
    "city_match \<in> set suffix_tokens" "Borough_match \<in> set suffix_tokens"
    by (simp_all add: suffix_tokens_def)
  have ne: "county_match \<noteq> munici_match" "county_match \<noteq> city_match"
    "county_match \<noteq> Borough_match" "munici_match \<noteq> city_match"
    "munici_match \<noteq> Borough_match" "city_match \<noteq> Borough_match"
    by (simp_all add: county_match_def munici_match_def city_match_def Borough_match_def)
  from assms(1) consider "suf = county_match" | "suf = munici_match" | "suf = city_match"
    | "suf = Borough_match"
    by (auto simp: suffix_tokens_def)
  then show ?thesis
  proof cases
    case 1
    then show ?thesis
      by (simp add: strip_suffixes_def re_sub_at_end_append t mem)
  next
    case 2
    then show ?thesis
      using o[of county_match] ne
      by (simp add: strip_suffixes_def re_sub_at_end_append t mem)
  next
    case 3
    then show ?thesis
      using o[of county_match] o[of munici_match] ne
      by (simp add: strip_suffixes_def re_sub_at_end_append t mem)
  next
    case 4
    then show ?thesis
      using o[of county_match] o[of munici_match] o[of city_match] ne
      by (simp add: strip_suffixes_def re_sub_at_end_append t mem)
  qed
qed

lemma strip_none:
  assumes "\<forall>x \<in> set suffix_tokens. \<not> re_search_at_end x s"
  shows "strip_suffixes s = s"
  using assms by (simp add: strip_suffixes_def suffix_tokens_def re_sub_at_end_no_match)

text \<open>
  Claim C8, as amended. The county values \<^verbatim>\<open>Orange County\<close>, \<^verbatim>\<open>Juneau Borough\<close> and
  \<^verbatim>\<open>Honolulu city\<close> are cleaned to \<^verbatim>\<open>orange\<close>, \<^verbatim>\<open>juneau\<close> and \<^verbatim>\<open>honolulu\<close>. A
  lowercased value that ends in one of the four tokens loses that token, and nothing more
  when the rest does not end in a token itself (at its end or before a final newline); a
  lowercased value in which none of the four patterns matches is only lowercased. The four
  substitutions run one after the other, so more than one token can go.
\<close>

theorem county_suffix_stripping:
  "clean_county (Some ''Orange County'') = ''orange'' \<and>
   clean_county (Some ''Juneau Borough'') = ''juneau'' \<and>
   clean_county (Some ''Honolulu city'') = ''honolulu'' \<and>
   (suf \<in> set suffix_tokens \<and> lower v = t @ suf
      \<and> (\<forall>x \<in> set suffix_tokens. \<not> re_search_at_end x t)
    \<longrightarrow> clean_county (Some v) = t) \<and>
   ((\<forall>x \<in> set suffix_tokens. \<not> re_search_at_end x (lower w))
    \<longrightarrow> clean_county (Some w) = lower w)"
proof -
  have "clean_county (Some ''Orange County'') = ''orange''" by code_simp
  moreover have "clean_county (Some ''Juneau Borough'') = ''juneau''" by code_simp
  moreover have "clean_county (Some ''Honolulu city'') = ''honolulu''" by code_simp
  moreover have "clean_county (Some v) = t"
    if "suf \<in> set suffix_tokens" "lower v = t @ suf"
      "\<forall>x \<in> set suffix_tokens. \<not> re_search_at_end x t"
    using that by (simp add: clean_county_def strip_one)
  moreover have "clean_county (Some w) = lower w"
    if "\<forall>x \<in> set suffix_tokens. \<not> re_search_at_end x (lower w)"
    using that by (simp add: clean_county_def strip_none)
  ultimately show ?thesis by blast
qed

text \<open>The two general parts of C8 at \<^verbatim>\<open>Juneau Borough\<close> and at \<^verbatim>\<open>Maui\<close>.\<close>

theorem county_suffix_stripping_witness:
  "lower ''Juneau Borough'' = ''juneau'' @ Borough_match \<and>
   clean_county (Some ''Juneau Borough'') = ''juneau'' \<and>
   lower ''Maui'' = ''maui'' \<and>
   clean_county (Some ''Maui'') = ''maui''"
proof -
  have a: "Borough_match \<in> set suffix_tokens" by (simp add: suffix_tokens_def)
  have b: "lower ''Juneau Borough'' = ''juneau'' @ Borough_match" by code_simp
  have c: "\<forall>x \<in> set suffix_tokens. \<not> re_search_at_end x ''juneau''" by code_simp
  have d: "lower ''Maui'' = ''maui''" by code_simp
  have e: "\<forall>x \<in> set suffix_tokens. \<not> re_search_at_end x (lower ''Maui'')" by code_simp
  from county_suffix_stripping [of Borough_match "''Juneau Borough''" "''juneau''" "''Maui''"] a b c d e
  show ?thesis by simp
qed

text \<open>
  Claim C8 as stated fails: \<^verbatim>\<open>James City County\<close> ends in the single token
  \<^verbatim>\<open> county\<close>, and the cleaning removes \<^verbatim>\<open> city\<close> as well.
\<close>

theorem county_suffix_stripping_counterexample:
  "lower ''James City County'' = ''james city'' @ county_match \<and>
   clean_county (Some ''James City County'') = ''james'' \<and>
   clean_county (Some ''James City County'') \<noteq> ''james city''"
  by code_simp

subsection \<open>The policy table\<close>

lemma those_map_Some:
  "those (map f xs) = Some ys \<Longrightarrow> list_all2 (\<lambda>x y. f x = Some y) xs ys"
proof (induction xs arbitrary: ys)
  case Nil
  then show ?case by simp
next
  case (Cons x xs)
  then show ?case by (auto split: option.splits)
qed

lemma list_all2_in_right:
  "list_all2 P xs ys \<Longrightarrow> y \<in> set ys \<Longrightarrow> \<exists>x \<in> set xs. P x y"
  by (induction rule: list_all2_induct) auto

lemma fips_loop_frame:
  "fips_loop u it df = Inr df' \<Longrightarrow> map erase_fips df' = map erase_fips df"
proof (induction it arbitrary: df)
  case Nil
  then show ?case by simp
next
  case (Cons data rest)
  show ?case
  proof (cases "raw_policy.policy_level data = ''state''")
    case True
    with Cons.prems obtain v where v: "state_fips u (state_id data) = Inr v"
      and r: "fips_loop u rest
               (map (\<lambda>r. if raw_policy.label r = raw_policy.label data
                        then r\<lparr> raw_policy.fips_code := Some v \<rparr> else r) df) = Inr df'"
      by (auto split: sum.splits)
    from Cons.IH [OF r] show ?thesis
      by (simp add: erase_fips_def comp_def if_distrib [of erase_fips] cong: if_cong)
  next
    case False
    with Cons show ?thesis by simp
  qed
qed

lemma state_fips_error:
  "state_fips u st = Inl e \<Longrightarrow> e = TypeError \<or> e = AttributeError \<or> e = ValueError"
  by (auto simp: state_fips_def split: option.splits)

lemma fips_loop_error:
  "fips_loop u it df = Inl e \<Longrightarrow> e = TypeError \<or> e = AttributeError \<or> e = ValueError"
proof (induction it arbitrary: df)
  case Nil
  then show ?case by simp
next
  case (Cons data rest)
  then show ?case
    by (auto split: if_splits sum.splits dest: state_fips_error)
qed

lemma erase_fips_eq:
  assumes "erase_fips a = erase_fips b"
  shows "raw_policy.label a = raw_policy.label b \<and> state_id a = state_id b
    \<and> raw_policy.county a = raw_policy.county b
    \<and> raw_policy.policy_level a = raw_policy.policy_level b
    \<and> raw_policy.date a = raw_policy.date b
    \<and> raw_policy.policy_type a = raw_policy.policy_type b
    \<and> raw_policy.start_stop a = raw_policy.start_stop b"
proof -
  have "raw_policy.label (erase_fips a) = raw_policy.label (erase_fips b)"
    "state_id (erase_fips a) = state_id (erase_fips b)"
    "raw_policy.county (erase_fips a) = raw_policy.county (erase_fips b)"
    "raw_policy.policy_level (erase_fips a) = raw_policy.policy_level (erase_fips b)"
    "raw_policy.date (erase_fips a) = raw_policy.date (erase_fips b)"
    "raw_policy.policy_type (erase_fips a) = raw_policy.policy_type (erase_fips b)"
    "raw_policy.start_stop (erase_fips a) = raw_policy.start_stop (erase_fips b)"
    using assms by simp_all
  then show ?thesis by (simp add: erase_fips_def)
qed

lemma drop_rows_in:
  "r \<in> set (drop_rows lab (map lab (filter P df)) df) \<Longrightarrow> r \<in> set df \<and> \<not> P r"
  by (auto simp: drop_rows_def)

lemma drop_non_states_in:
  "q \<in> set (drop_non_states u df) \<Longrightarrow> q \<in> set df \<and> state_id q \<in> set (map abbr (STATES u))"
  unfolding drop_non_states_def by (drule drop_rows_in) simp

lemma drop_phases_in:
  "r \<in> set (drop_phases df) \<Longrightarrow> r \<in> set df \<and> policy_record.policy_type r \<notin> set policies_drop"
  unfolding drop_phases_def by (drule drop_rows_in) simp

lemma drop_out_of_range_in:
  "r \<in> set (drop_out_of_range lo hi df) \<Longrightarrow>
     r \<in> set df \<and> lo \<le> policy_record.date r \<and> policy_record.date r \<le> hi"
  unfolding drop_out_of_range_def by (drule drop_rows_in) auto

lemma fold_min_Min: "fold min ds (d :: int) = Min (set (d # ds))"
  by (rule Min.set_eq_fold [symmetric])

lemma fold_max_Max: "fold max ds (d :: int) = Max (set (d # ds))"
  by (rule Max.set_eq_fold [symmetric])

lemma clean_policies_rows:
  assumes "clean_policies u df timeseries_df = Inr out" and "r \<in> set out"
  shows "\<exists>q \<in> set df.
           state_id q \<in> set (map abbr (STATES u))
         \<and> raw_policy.label q = policy_record.label r
         \<and> policy_record.state r = replace_cell (states_mapping u abbr name) (state_id q)
         \<and> policy_record.county r =
             clean_county (map_option (replace_cell (states_mapping u abbr name)) (raw_policy.county q))
         \<and> policy_record.policy_level r =
             replace_cell (states_mapping u abbr name) (raw_policy.policy_level q)
         \<and> to_datetime (fix_date (replace_cell (states_mapping u abbr name) (raw_policy.date q)))
             = Inr (policy_record.date r)
         \<and> policy_record.policy_type r =
             clean_policy_type (replace_cell (states_mapping u abbr name) (raw_policy.policy_type q))
         \<and> policy_record.start_stop r =
             replace_cell (states_mapping u abbr name) (raw_policy.start_stop q)
         \<and> policy_record.policy_type r \<notin> set policies_drop
         \<and> Min (case_record.date ` set timeseries_df) \<le> policy_record.date r
         \<and> policy_record.date r \<le> Max (case_record.date ` set timeseries_df)"
proof -
  define d where "d = states_mapping u abbr name"
  define df1 where "df1 = map (replace_row d) (drop_non_states u df)"
  from assms(1) obtain df2 df3 t ts where
    loop: "fips_loop u df1 df1 = Inr df2"
    and cast: "those (map typed_policy df2) = Some df3"
    and dates: "map case_record.date timeseries_df = t # ts"
    and out: "out = drop_phases
                (map rename_policy (drop_out_of_range (fold min ts t) (fold max ts t) df3))"
    unfolding clean_policies_def df1_def d_def
    by (auto simp: Let_def split: if_splits sum.splits option.splits list.splits)
  have bounds: "fold min ts t = Min (case_record.date ` set timeseries_df)"
    "fold max ts t = Max (case_record.date ` set timeseries_df)"
    using dates fold_min_Min [of ts t] fold_max_Max [of ts t]
    by (metis list.set_map)+
  from assms(2) have phase: "policy_record.policy_type r \<notin> set policies_drop"
    and "r \<in> set (map rename_policy (drop_out_of_range (fold min ts t) (fold max ts t) df3))"
    unfolding out by (auto dest: drop_phases_in)
  then obtain r3 where "r3 \<in> set (drop_out_of_range (fold min ts t) (fold max ts t) df3)"
    and r: "r = r3\<lparr> policy_record.policy_type := clean_policy_type (policy_record.policy_type r3) \<rparr>"
    by (auto simp: rename_policy_def)
  then have r3: "r3 \<in> set df3"
    and range: "fold min ts t \<le> policy_record.date r3" "policy_record.date r3 \<le> fold max ts t"
    by (auto dest: drop_out_of_range_in)
  from those_map_Some [OF cast] r3 obtain q2 where q2: "q2 \<in> set df2"
    and t2: "typed_policy q2 = Some r3"
    by (blast dest: list_all2_in_right)
  from q2 have "erase_fips q2 \<in> set (map erase_fips df2)" by simp
  then have "erase_fips q2 \<in> set (map erase_fips df1)"
    using fips_loop_frame [OF loop] by simp
  then obtain q1 where q1: "q1 \<in> set df1" and e: "erase_fips q1 = erase_fips q2" by auto
  from q1 obtain q where q: "q \<in> set (drop_non_states u df)" and q1r: "q1 = replace_row d q"
    by (auto simp: df1_def)
  note f = erase_fips_eq [OF e]
  from t2 have fields:
    "policy_record.label r3 = raw_policy.label q2"
    "policy_record.state r3 = state_id q2"
    "policy_record.county r3 = clean_county (raw_policy.county q2)"
    "policy_record.policy_level r3 = raw_policy.policy_level q2"
    "to_datetime (fix_date (raw_policy.date q2)) = Inr (policy_record.date r3)"
    "policy_record.policy_type r3 = raw_policy.policy_type q2"
    "policy_record.start_stop r3 = raw_policy.start_stop q2"
    by (auto simp: typed_policy_def cleaned_county_def split: option.splits sum.splits)
  have "q \<in> set df" "state_id q \<in> set (map abbr (STATES u))"
    using drop_non_states_in [OF q] by simp_all
  moreover have "raw_policy.label q = policy_record.label r"
    using f fields r q1r by (simp add: replace_row_def)
  moreover have "policy_record.state r = replace_cell d (state_id q)"
    using f fields r q1r by (simp add: replace_row_def)
  moreover have "policy_record.county r = clean_county (map_option (replace_cell d) (raw_policy.county q))"
    using f fields r q1r by (simp add: replace_row_def)
  moreover have "policy_record.policy_level r = replace_cell d (raw_policy.policy_level q)"
    using f fields r q1r by (simp add: replace_row_def)
  moreover have "to_datetime (fix_date (replace_cell d (raw_policy.date q))) = Inr (policy_record.date r)"
    using f fields r q1r by (simp add: replace_row_def)
  moreover have "policy_record.policy_type r = clean_policy_type (replace_cell d (raw_policy.policy_type q))"
    using f fields r q1r by (simp add: replace_row_def)
  moreover have "policy_record.start_stop r = replace_cell d (raw_policy.start_stop q)"
    using f fields r q1r by (simp add: replace_row_def)
  moreover have "Min (case_record.date ` set timeseries_df) \<le> policy_record.date r"
    "policy_record.date r \<le> Max (case_record.date ` set timeseries_df)"
    using range r bounds by simp_all
  ultimately show ?thesis using phase unfolding d_def by blast
qed

text \<open>
  Claim C7. A date string that starts with the year segment \<^verbatim>\<open>0020\<close> is rewritten to
  start with \<^verbatim>\<open>2020\<close>; \<^verbatim>\<open>0020-04-01\<close> is parsed, after the repair, as the first of
  April 2020. Every row of a cleaned policy table comes from a raw row whose repaired date
  parses to the row's date, and that date lies between the earliest and the latest date of
  the cleaned case table: the rows outside that range are dropped.
\<close>

theorem date_repair:
  "fix_date (''0020'' @ rest) = ''2020'' @ rest \<and>
   to_datetime (fix_date ''0020-04-01'') = Inr (days_from_civil 2020 4 1) \<and>
   (clean_policies u df timeseries_df = Inr out \<longrightarrow>
      (\<forall>r \<in> set out.
         (\<exists>q \<in> set df. raw_policy.label q = policy_record.label r \<and>
            to_datetime (fix_date (replace_cell (states_mapping u abbr name) (raw_policy.date q)))
              = Inr (policy_record.date r))
         \<and> Min (case_record.date ` set timeseries_df) \<le> policy_record.date r
         \<and> policy_record.date r \<le> Max (case_record.date ` set timeseries_df)))"
proof -
  have "fix_date (''0020'' @ rest) = ''2020'' @ rest"
    by (simp add: fix_date_def bad_mask_def)
  moreover have "to_datetime (fix_date ''0020-04-01'') = Inr (days_from_civil 2020 4 1)"
    by code_simp
  moreover have "\<forall>r \<in> set out.
         (\<exists>q \<in> set df. raw_policy.label q = policy_record.label r \<and>
            to_datetime (fix_date (replace_cell (states_mapping u abbr name) (raw_policy.date q)))
              = Inr (policy_record.date r))
         \<and> Min (case_record.date ` set timeseries_df) \<le> policy_record.date r
         \<and> policy_record.date r \<le> Max (case_record.date ` set timeseries_df)"
    if "clean_policies u df timeseries_df = Inr out"
  proof
    fix r assume "r \<in> set out"
    from clean_policies_rows [OF that this]
    show "(\<exists>q \<in> set df. raw_policy.label q = policy_record.label r \<and>
            to_datetime (fix_date (replace_cell (states_mapping u abbr name) (raw_policy.date q)))
              = Inr (policy_record.date r))
         \<and> Min (case_record.date ` set timeseries_df) \<le> policy_record.date r
         \<and> policy_record.date r \<le> Max (case_record.date ` set timeseries_df)"
      by blast
  qed
  ultimately show ?thesis by blast
qed

lemma example_policies_run:
  "clean_policies example_us example_policies example_timeseries = Inr example_cleaned_policies"
  by code_simp

text \<open>
  C7 on the example tables: the first cleaned row comes from the raw date
  \<^verbatim>\<open>0020-03-05\<close>; the raw row of July 2020 is outside the range of the case table and
  is gone.
\<close>

theorem date_repair_witness:
  "clean_policies example_us example_policies example_timeseries = Inr example_cleaned_policies \<and>
   hd example_cleaned_policies \<in> set example_cleaned_policies \<and>
   (\<exists>q \<in> set example_policies.
      raw_policy.label q = policy_record.label (hd example_cleaned_policies) \<and>
      to_datetime (fix_date (replace_cell (states_mapping example_us abbr name) (raw_policy.date q)))
        = Inr (policy_record.date (hd example_cleaned_policies))) \<and>
   Min (case_record.date ` set example_timeseries) \<le> policy_record.date (hd example_cleaned_policies) \<and>
   policy_record.date (hd example_cleaned_policies) \<le> Max (case_record.date ` set example_timeseries) \<and>
   policy_record.date (hd example_cleaned_policies) = days_from_civil 2020 3 5"
proof -
  note run = example_policies_run
  have mem: "hd example_cleaned_policies \<in> set example_cleaned_policies"
    by (simp add: example_cleaned_policies_def)
  have day: "policy_record.date (hd example_cleaned_policies) = days_from_civil 2020 3 5"
    by code_simp
  from date_repair [of "[]" example_us example_policies example_timeseries example_cleaned_policies]
    run mem day
  show ?thesis by blast
qed

lemma set_unique: "set (unique xs) = set xs"
  by (simp add: unique_def)

lemma distinct_unique: "distinct (unique xs)"
  by (simp add: unique_def)

lemma set_mismatches:
  "set (mismatches cs ts) = {c \<in> set cs. c \<noteq> ''statewide'' \<and> c \<notin> set (map case_record.county ts)}"
  by (auto simp: mismatches_def locs_def set_unique)

lemma distinct_mismatches: "distinct (mismatches cs ts)"
  by (simp add: mismatches_def distinct_unique)

lemma clean_policies_assert:
  "mismatches (county_column u df) ts \<noteq> [] \<Longrightarrow>
     clean_policies u df ts = Inl (AssertionError (mismatches (county_column u df) ts))"
  by (simp add: clean_policies_def Let_def)

lemma clean_policies_no_assert:
  "mismatches (county_column u df) ts = [] \<Longrightarrow> clean_policies u df ts \<noteq> Inl (AssertionError ms)"
  by (auto simp: clean_policies_def Let_def split: sum.splits option.splits list.splits
      dest: fips_loop_error)

text \<open>
  Claim C2, as amended. A county value other than \<^verbatim>\<open>statewide\<close> is reported as a mismatch
  if and only if it does not occur in the \<^verbatim>\<open>county\<close> column of the cleaned case table (the
  lowercased county names, without the state), and the assertion fails if and only if some
  such county value does not occur there.
\<close>

theorem reconciliation_by_county_name:
  "(c \<in> set (county_column u df) \<and> c \<noteq> ''statewide'' \<longrightarrow>
      (c \<in> set (mismatches (county_column u df) timeseries_df))
        = (c \<notin> set (map case_record.county timeseries_df))) \<and>
   ((\<exists>ms. clean_policies u df timeseries_df = Inl (AssertionError ms))
      = (\<exists>c \<in> set (county_column u df).
           c \<noteq> ''statewide'' \<and> c \<notin> set (map case_record.county timeseries_df)))"
proof -
  let ?ms = "mismatches (county_column u df) timeseries_df"
  have a: "c \<in> set (county_column u df) \<and> c \<noteq> ''statewide'' \<longrightarrow>
      (c \<in> set ?ms) = (c \<notin> set (map case_record.county timeseries_df))"
    by (simp add: set_mismatches)
  have "(\<exists>ms. clean_policies u df timeseries_df = Inl (AssertionError ms)) = (?ms \<noteq> [])"
    using clean_policies_assert [of u df timeseries_df]
      clean_policies_no_assert [of u df timeseries_df] by blast
  also have "\<dots> = (set ?ms \<noteq> {})" by simp
  also have "\<dots> = (\<exists>c \<in> set (county_column u df).
           c \<noteq> ''statewide'' \<and> c \<notin> set (map case_record.county timeseries_df))"
    unfolding set_mismatches by blast
  finally show ?thesis using a by blast
qed

text \<open>
  Claim C3. When the list of mismatches is not empty, the cleaning raises the
  \<^verbatim>\<open>AssertionError\<close> whose message holds that list, and \<^verbatim>\<open>clean_policy_data\<close> leaves the
  files as the fetch of the case table left them: no policy table is written. This holds
  for the call with a frame and for the call without one that loads the raw frame (no
  cache file, or \<^verbatim>\<open>force_reclean\<close>). The list holds every county value other than
  \<^verbatim>\<open>statewide\<close> that is missing in the case table, each once. When the list is empty, no
  \<^verbatim>\<open>AssertionError\<close> is raised.
\<close>

theorem reconciliation_error:
  "(mismatches (county_column u df) timeseries_df \<noteq> [] \<longrightarrow>
      clean_policies u df timeseries_df
        = Inl (AssertionError (mismatches (county_column u df) timeseries_df))
      \<and> (clean_covid_data net fs None ''./data/covid_timeseries.csv'' cleaned_timeseries_path
            False False = (Inr timeseries_df, fs') \<longrightarrow>
          clean_policy_data u net fs (Some df) cleaned_timeseries_path path clean_path
            force_reload force_reclean
            = (Inl (AssertionError (mismatches (county_column u df) timeseries_df)), fs'))
      \<and> ((fs clean_path = None \<or> force_reclean)
           \<and> load_policy_data net fs path force_reload = (Inr df, fs1)
           \<and> clean_covid_data net fs1 None ''./data/covid_timeseries.csv'' cleaned_timeseries_path
                 False False = (Inr timeseries_df, fs2) \<longrightarrow>
          clean_policy_data u net fs None cleaned_timeseries_path path clean_path
            force_reload force_reclean
            = (Inl (AssertionError (mismatches (county_column u df) timeseries_df)), fs2))) \<and>
   (mismatches (county_column u df) timeseries_df = [] \<longrightarrow>
      (\<forall>ms. clean_policies u df timeseries_df \<noteq> Inl (AssertionError ms))) \<and>
   set (mismatches (county_column u df) timeseries_df)
     = {c \<in> set (county_column u df).
          c \<noteq> ''statewide'' \<and> c \<notin> set (map case_record.county timeseries_df)} \<and>
   distinct (mismatches (county_column u df) timeseries_df)"
proof -
  let ?ms = "mismatches (county_column u df) timeseries_df"
  have "clean_policy_data u net fs (Some df) cleaned_timeseries_path path clean_path
            force_reload force_reclean = (Inl (AssertionError ?ms), fs')"
    if "?ms \<noteq> []" and "clean_covid_data net fs None ''./data/covid_timeseries.csv''
           cleaned_timeseries_path False False = (Inr timeseries_df, fs')"
    using that clean_policies_assert [of u df timeseries_df]
    by (simp add: clean_policy_data_def save_policies_def)
  moreover have "clean_policy_data u net fs None cleaned_timeseries_path path clean_path
            force_reload force_reclean = (Inl (AssertionError ?ms), fs2)"
    if "?ms \<noteq> []" and "fs clean_path = None \<or> force_reclean"
      and "load_policy_data net fs path force_reload = (Inr df, fs1)"
      and "clean_covid_data net fs1 None ''./data/covid_timeseries.csv''
           cleaned_timeseries_path False False = (Inr timeseries_df, fs2)"
    using that clean_policies_assert [of u df timeseries_df]
    by (auto simp: clean_policy_data_def save_policies_def)
  ultimately show ?thesis
    using clean_policies_assert [of u df timeseries_df]
      clean_policies_no_assert [of u df timeseries_df]
      set_mismatches [of "county_column u df" timeseries_df]
      distinct_mismatches [of "county_column u df" timeseries_df]
    by blast
qed

lemma example_mismatches:
  "mismatches (county_column example_us example_mismatched_policies) example_timeseries
     = [''foo'', ''bar'']"
  by code_simp

lemma example_no_mismatches:
  "mismatches (county_column example_us example_policies) example_timeseries = []"
  by code_simp

lemma example_cache_read:
  "clean_covid_data example_remote example_files None ''./data/covid_timeseries.csv''
     ''./data/covid_timeseries_cleaned.csv'' False False = (Inr example_timeseries, example_files)"
  by (simp add: clean_covid_data_def example_files_def)

text \<open>
  C2 on the example tables: \<^verbatim>\<open>foo\<close> is no county of the case table and is reported,
  \<^verbatim>\<open>orange\<close> is one and is not.
\<close>

theorem reconciliation_by_county_name_witness:
  "''foo'' \<in> set (county_column example_us example_mismatched_policies) \<and>
   ''foo'' \<in> set (mismatches (county_column example_us example_mismatched_policies) example_timeseries) \<and>
   ''foo'' \<notin> set (map case_record.county example_timeseries) \<and>
   ''orange'' \<in> set (county_column example_us example_mismatched_policies) \<and>
   ''orange'' \<notin> set (mismatches (county_column example_us example_mismatched_policies) example_timeseries) \<and>
   ''orange'' \<in> set (map case_record.county example_timeseries) \<and>
   clean_policies example_us example_mismatched_policies example_timeseries
     = Inl (AssertionError [''foo'', ''bar''])"
proof -
  have a: "''foo'' \<in> set (county_column example_us example_mismatched_policies)"
    "''orange'' \<in> set (county_column example_us example_mismatched_policies)"
    by code_simp+
  have b: "''foo'' \<noteq> ''statewide''" "''orange'' \<noteq> ''statewide''" by simp_all
  have c: "''foo'' \<notin> set (map case_record.county example_timeseries)"
    "''orange'' \<in> set (map case_record.county example_timeseries)"
    by code_simp+
  have d: "clean_policies example_us example_mismatched_policies example_timeseries
     = Inl (AssertionError [''foo'', ''bar''])"
    by code_simp
  from reconciliation_by_county_name [of "''foo''" example_us example_mismatched_policies example_timeseries]
    reconciliation_by_county_name [of "''orange''" example_us example_mismatched_policies example_timeseries]
    a b c d
  show ?thesis by blast
qed

text \<open>
  Claim C2 as stated fails: Orange County of Texas passes the reconciliation although the
  case table holds no location \<^verbatim>\<open>orange, Texas\<close>; the county name alone is compared.
\<close>

theorem reconciliation_by_county_name_counterexample:
  "clean_policies example_us
     [policy_row 0 ''TX'' (Some ''Orange County'') (Some 48361) ''county'' ''2020-03-02''
        ''Shelter in Place'']
     example_timeseries
     = Inr [cleaned_policy 0 ''Texas'' ''orange'' 48361 ''county'' (days_from_civil 2020 3 2)
              ''shelter in place''] \<and>
   map full_loc_name example_timeseries = [''orange, California'', ''kern, California''] \<and>
   ''orange, Texas'' \<notin> set (map full_loc_name example_timeseries)"
  by code_simp

text \<open>
  C3 on the example tables: two unmatched counties, one of them in two rows, are both in
  the error and no policy file appears, with the frame given and with the frame downloaded;
  the matching frame raises no assertion.
\<close>

theorem reconciliation_error_witness:
  "mismatches (county_column example_us example_mismatched_policies) example_timeseries
     = [''foo'', ''bar''] \<and>
   clean_policies example_us example_mismatched_policies example_timeseries
     = Inl (AssertionError [''foo'', ''bar'']) \<and>
   clean_policy_data example_us example_remote example_files (Some example_mismatched_policies)
     ''./data/covid_timeseries_cleaned.csv'' ''./data/covid_policies.csv''
     ''./data/covid_policies_cleaned.csv'' False False
     = (Inl (AssertionError [''foo'', ''bar'']), example_files) \<and>
   example_files ''./data/covid_policies_cleaned.csv'' = None \<and>
   clean_policy_data example_us example_policy_remote example_files None
     ''./data/covid_timeseries_cleaned.csv'' ''./data/covid_policies.csv''
     ''./data/covid_policies_cleaned.csv'' False False
     = (Inl (AssertionError [''foo'', ''bar'']),
        example_files(''./data/covid_policies.csv'' \<mapsto> RawPolicies example_mismatched_policies)) \<and>
   (example_files(''./data/covid_policies.csv'' \<mapsto> RawPolicies example_mismatched_policies))
     ''./data/covid_policies_cleaned.csv'' = None \<and>
   mismatches (county_column example_us example_policies) example_timeseries = [] \<and>
   clean_policies example_us example_policies example_timeseries \<noteq> Inl (AssertionError [])"
proof -
  let ?fs1 = "example_files(''./data/covid_policies.csv'' \<mapsto> RawPolicies example_mismatched_policies)"
  have l: "load_policy_data example_policy_remote example_files ''./data/covid_policies.csv'' False
             = (Inr example_mismatched_policies, ?fs1)"
    by (simp add: load_policy_data_def example_policy_remote_def example_files_def)
  have f: "clean_covid_data example_policy_remote ?fs1 None ''./data/covid_timeseries.csv''
             ''./data/covid_timeseries_cleaned.csv'' False False = (Inr example_timeseries, ?fs1)"
    by (simp add: clean_covid_data_def example_files_def)
  have n1: "?fs1 ''./data/covid_policies_cleaned.csv'' = None"
    by (simp add: example_files_def)
  have a: "mismatches (county_column example_us example_mismatched_policies) example_timeseries \<noteq> []"
    by (simp add: example_mismatches)
  have n: "example_files ''./data/covid_policies_cleaned.csv'' = None"
    by (simp add: example_files_def)
  from reconciliation_error [of example_us example_mismatched_policies example_timeseries
      example_remote example_files "''./data/covid_timeseries_cleaned.csv''" example_files
      "''./data/covid_policies.csv''" "''./data/covid_policies_cleaned.csv''" False False]
    a example_cache_read
  have "clean_policies example_us example_mismatched_policies example_timeseries
     = Inl (AssertionError [''foo'', ''bar''])"
    "clean_policy_data example_us example_remote example_files (Some example_mismatched_policies)
     ''./data/covid_timeseries_cleaned.csv'' ''./data/covid_policies.csv''
     ''./data/covid_policies_cleaned.csv'' False False
     = (Inl (AssertionError [''foo'', ''bar'']), example_files)"
    by (simp_all add: example_mismatches)
  moreover from reconciliation_error [of example_us example_mismatched_policies example_timeseries
      example_policy_remote example_files "''./data/covid_timeseries_cleaned.csv''" example_files
      "''./data/covid_policies.csv''" "''./data/covid_policies_cleaned.csv''" False False ?fs1 ?fs1]
    a n l f
  have "clean_policy_data example_us example_policy_remote example_files None
     ''./data/covid_timeseries_cleaned.csv'' ''./data/covid_policies.csv''
     ''./data/covid_policies_cleaned.csv'' False False
     = (Inl (AssertionError [''foo'', ''bar'']), ?fs1)"
    by (simp add: example_mismatches)
  moreover from reconciliation_error [of example_us example_policies example_timeseries
      example_remote example_files "''./data/covid_timeseries_cleaned.csv''" example_files
      "''./data/covid_policies.csv''" "''./data/covid_policies_cleaned.csv''" False False
      example_files example_files]
    example_no_mismatches
  have "clean_policies example_us example_policies example_timeseries \<noteq> Inl (AssertionError [])"
    by blast
  ultimately show ?thesis using example_mismatches example_no_mismatches n n1 by blast
qed

lemma states_mapping_Some:
  assumes "s \<in> set (STATES_AND_TERRITORIES u)" "distinct (map abbr (STATES_AND_TERRITORIES u))"
  shows "states_mapping u abbr name (abbr s) = Some (name s)"
  unfolding states_mapping_def
proof (rule map_of_is_SomeI)
  show "distinct (map fst (rev (map (\<lambda>s. (abbr s, name s)) (STATES_AND_TERRITORIES u))))"
    using assms(2) by (simp add: rev_map [symmetric] comp_def)
  show "(abbr s, name s) \<in> set (rev (map (\<lambda>s. (abbr s, name s)) (STATES_AND_TERRITORIES u)))"
    using assms(1) by auto
qed

lemma states_mapping_None:
  assumes "v \<notin> set (map abbr (STATES_AND_TERRITORIES u))"
  shows "states_mapping u abbr name v = None"
  using assms unfolding states_mapping_def
  by (simp add: map_of_eq_None_iff image_image)

text \<open>
  Claim C9, as amended. The replacement by \<^verbatim>\<open>us.states.mapping("abbr", "name")\<close> works on
  every column of strings, not only on \<^verbatim>\<open>state_id\<close>. The keys of the dictionary are the
  postal abbreviations of the states and of the territories: a cell that is one of them
  becomes the name of that state or territory, any other cell stays, and the numeric
  columns stay. The rows of the cleaned table carry the replaced cells.
\<close>

theorem state_names_in_every_column:
  "(d = states_mapping u abbr name \<longrightarrow>
      state_id (replace_row d r) = replace_cell d (state_id r) \<and>
      raw_policy.county (replace_row d r) = map_option (replace_cell d) (raw_policy.county r) \<and>
      raw_policy.policy_level (replace_row d r) = replace_cell d (raw_policy.policy_level r) \<and>
      raw_policy.date (replace_row d r) = replace_cell d (raw_policy.date r) \<and>
      raw_policy.policy_type (replace_row d r) = replace_cell d (raw_policy.policy_type r) \<and>
      raw_policy.start_stop (replace_row d r) = replace_cell d (raw_policy.start_stop r) \<and>
      raw_policy.fips_code (replace_row d r) = raw_policy.fips_code r \<and>
      raw_policy.label (replace_row d r) = raw_policy.label r \<and>
      (s \<in> set (STATES_AND_TERRITORIES u) \<and> distinct (map abbr (STATES_AND_TERRITORIES u))
         \<longrightarrow> replace_cell d (abbr s) = name s) \<and>
      (v \<notin> set (map abbr (STATES_AND_TERRITORIES u)) \<longrightarrow> replace_cell d v = v) \<and>
      (clean_policies u df timeseries_df = Inr out \<longrightarrow>
         (\<forall>x \<in> set out. \<exists>q \<in> set df.
            raw_policy.label q = policy_record.label x \<and>
            policy_record.state x = replace_cell d (state_id q) \<and>
            policy_record.county x = clean_county (map_option (replace_cell d) (raw_policy.county q)) \<and>
            policy_record.policy_level x = replace_cell d (raw_policy.policy_level q) \<and>
            policy_record.policy_type x
              = clean_policy_type (replace_cell d (raw_policy.policy_type q)) \<and>
            policy_record.start_stop x = replace_cell d (raw_policy.start_stop q))))"
proof
  assume d: "d = states_mapping u abbr name"
  have cols: "state_id (replace_row d r) = replace_cell d (state_id r) \<and>
      raw_policy.county (replace_row d r) = map_option (replace_cell d) (raw_policy.county r) \<and>
      raw_policy.policy_level (replace_row d r) = replace_cell d (raw_policy.policy_level r) \<and>
      raw_policy.date (replace_row d r) = replace_cell d (raw_policy.date r) \<and>
      raw_policy.policy_type (replace_row d r) = replace_cell d (raw_policy.policy_type r) \<and>
      raw_policy.start_stop (replace_row d r) = replace_cell d (raw_policy.start_stop r) \<and>
      raw_policy.fips_code (replace_row d r) = raw_policy.fips_code r \<and>
      raw_policy.label (replace_row d r) = raw_policy.label r"
    by (simp add: replace_row_def)
  have key: "replace_cell d (abbr s) = name s"
    if "s \<in> set (STATES_AND_TERRITORIES u)" "distinct (map abbr (STATES_AND_TERRITORIES u))"
    using that by (simp add: d replace_cell_def states_mapping_Some)
  have other: "replace_cell d v = v" if "v \<notin> set (map abbr (STATES_AND_TERRITORIES u))"
    using that by (simp add: d replace_cell_def states_mapping_None)
  have rows: "\<forall>x \<in> set out. \<exists>q \<in> set df.
            raw_policy.label q = policy_record.label x \<and>
            policy_record.state x = replace_cell d (state_id q) \<and>
            policy_record.county x = clean_county (map_option (replace_cell d) (raw_policy.county q)) \<and>
            policy_record.policy_level x = replace_cell d (raw_policy.policy_level q) \<and>
            policy_record.policy_type x
              = clean_policy_type (replace_cell d (raw_policy.policy_type q)) \<and>
            policy_record.start_stop x = replace_cell d (raw_policy.start_stop q)"
    if "clean_policies u df timeseries_df = Inr out"
  proof
    fix x assume "x \<in> set out"
    from clean_policies_rows [OF that this]
    show "\<exists>q \<in> set df.
            raw_policy.label q = policy_record.label x \<and>
            policy_record.state x = replace_cell d (state_id q) \<and>
            policy_record.county x = clean_county (map_option (replace_cell d) (raw_policy.county q)) \<and>
            policy_record.policy_level x = replace_cell d (raw_policy.policy_level q) \<and>
            policy_record.policy_type x
              = clean_policy_type (replace_cell d (raw_policy.policy_type q)) \<and>
            policy_record.start_stop x = replace_cell d (raw_policy.start_stop q)"
      unfolding d by blast
  qed
  from cols key other rows
  show "state_id (replace_row d r) = replace_cell d (state_id r) \<and>
      raw_policy.county (replace_row d r) = map_option (replace_cell d) (raw_policy.county r) \<and>
      raw_policy.policy_level (replace_row d r) = replace_cell d (raw_policy.policy_level r) \<and>
      raw_policy.date (replace_row d r) = replace_cell d (raw_policy.date r) \<and>
      raw_policy.policy_type (replace_row d r) = replace_cell d (raw_policy.policy_type r) \<and>
      raw_policy.start_stop (replace_row d r) = replace_cell d (raw_policy.start_stop r) \<and>
      raw_policy.fips_code (replace_row d r) = raw_policy.fips_code r \<and>
      raw_policy.label (replace_row d r) = raw_policy.label r \<and>
      (s \<in> set (STATES_AND_TERRITORIES u) \<and> distinct (map abbr (STATES_AND_TERRITORIES u))
         \<longrightarrow> replace_cell d (abbr s) = name s) \<and>
      (v \<notin> set (map abbr (STATES_AND_TERRITORIES u)) \<longrightarrow> replace_cell d v = v) \<and>
      (clean_policies u df timeseries_df = Inr out \<longrightarrow>
         (\<forall>x \<in> set out. \<exists>q \<in> set df.
            raw_policy.label q = policy_record.label x \<and>
            policy_record.state x = replace_cell d (state_id q) \<and>
            policy_record.county x = clean_county (map_option (replace_cell d) (raw_policy.county q)) \<and>
            policy_record.policy_level x = replace_cell d (raw_policy.policy_level q) \<and>
            policy_record.policy_type x
              = clean_policy_type (replace_cell d (raw_policy.policy_type q)) \<and>
            policy_record.start_stop x = replace_cell d (raw_policy.start_stop q)))"
    by blast
qed

text \<open>
  C9 on the example tables: the cell \<^verbatim>\<open>TX\<close> becomes \<^verbatim>\<open>Texas\<close> in the columns
  \<^verbatim>\<open>state_id\<close> and \<^verbatim>\<open>policy_level\<close> of one row and, lowercased afterwards, in the column
  \<^verbatim>\<open>policy_type\<close> of another.
\<close>

theorem state_names_in_every_column_witness:
  "state_id (replace_row (states_mapping example_us abbr name) (example_policies ! 4)) = ''Texas'' \<and>
   raw_policy.policy_level (replace_row (states_mapping example_us abbr name) (example_policies ! 4))
     = ''Texas'' \<and>
   raw_policy.start_stop (replace_row (states_mapping example_us abbr name) (example_policies ! 4))
     = ''start'' \<and>
   raw_policy.fips_code (replace_row (states_mapping example_us abbr name) (example_policies ! 4))
     = Some 48 \<and>
   clean_policies example_us example_policies example_timeseries = Inr example_cleaned_policies \<and>
   last example_cleaned_policies \<in> set example_cleaned_policies \<and>
   (\<exists>q \<in> set example_policies.
      raw_policy.label q = policy_record.label (last example_cleaned_policies) \<and>
      policy_record.state (last example_cleaned_policies)
        = replace_cell (states_mapping example_us abbr name) (state_id q) \<and>
      policy_record.policy_type (last example_cleaned_policies)
        = clean_policy_type (replace_cell (states_mapping example_us abbr name) (raw_policy.policy_type q))) \<and>
   policy_record.state (last example_cleaned_policies) = ''Texas'' \<and>
   policy_record.policy_type (last example_cleaned_policies) = ''texas''"
proof -
  let ?d = "states_mapping example_us abbr name"
  let ?s = "\<lparr> abbr = ''TX'', name = ''Texas'', fips = ''48'' \<rparr>"
  have s: "?s \<in> set (STATES_AND_TERRITORIES example_us)"
    "distinct (map abbr (STATES_AND_TERRITORIES example_us))"
    by (simp_all add: example_us_def)
  have v: "''start'' \<notin> set (map abbr (STATES_AND_TERRITORIES example_us))"
    by (simp add: example_us_def)
  have row: "state_id (example_policies ! 4) = abbr ?s"
    "raw_policy.policy_level (example_policies ! 4) = abbr ?s"
    "raw_policy.start_stop (example_policies ! 4) = ''start''"
    "raw_policy.fips_code (example_policies ! 4) = Some 48"
    by (simp_all add: example_policies_def policy_row_def)
  have mem: "last example_cleaned_policies \<in> set example_cleaned_policies"
    by (simp add: example_cleaned_policies_def)
  have vals: "policy_record.state (last example_cleaned_policies) = ''Texas''"
    "policy_record.policy_type (last example_cleaned_policies) = ''texas''"
    by (simp_all add: example_cleaned_policies_def cleaned_policy_def)
  from state_names_in_every_column [of ?d example_us "example_policies ! 4" ?s "''start''"
      example_policies example_timeseries example_cleaned_policies]
    s v example_policies_run mem
  have "state_id (replace_row ?d (example_policies ! 4)) = replace_cell ?d (state_id (example_policies ! 4))"
    "raw_policy.policy_level (replace_row ?d (example_policies ! 4))
       = replace_cell ?d (raw_policy.policy_level (example_policies ! 4))"
    "raw_policy.start_stop (replace_row ?d (example_policies ! 4))
       = replace_cell ?d (raw_policy.start_stop (example_policies ! 4))"
    "raw_policy.fips_code (replace_row ?d (example_policies ! 4))
       = raw_policy.fips_code (example_policies ! 4)"
    "replace_cell ?d (abbr ?s) = name ?s"
    "replace_cell ?d ''start'' = ''start''"
    "\<exists>q \<in> set example_policies.
      raw_policy.label q = policy_record.label (last example_cleaned_policies) \<and>
      policy_record.state (last example_cleaned_policies) = replace_cell ?d (state_id q) \<and>
      policy_record.policy_type (last example_cleaned_policies)
        = clean_policy_type (replace_cell ?d (raw_policy.policy_type q))"
    by blast+
  with row example_policies_run mem vals show ?thesis by simp
qed

text \<open>
  Claim C9 as stated fails: \<^verbatim>\<open>PR\<close> is not the postal abbreviation of a state, and a policy
  of California whose type is the cell \<^verbatim>\<open>PR\<close> is cleaned to the type \<^verbatim>\<open>puerto rico\<close>.
\<close>

theorem state_names_in_every_column_counterexample:
  "''PR'' \<notin> set (map abbr (STATES example_us)) \<and>
   replace_cell (states_mapping example_us abbr name) ''PR'' = ''Puerto Rico'' \<and>
   clean_policies example_us
     [policy_row 0 ''CA'' None None ''state'' ''2020-03-05'' ''PR'']
     example_timeseries
     = Inr [cleaned_policy 0 ''California'' ''statewide'' 6 ''state'' (days_from_civil 2020 3 5)
              ''puerto rico'']"
  by code_simp

subsection \<open>The case and death table\<close>

lemma fold_by_label:
  assumes step: "\<And>d df. step d df = map (\<lambda>r. if lab r = lab d then u (V df d) r else r) df"
    and inv: "\<And>d df. V (step d df) = V df"
  shows "fold step ns df = map (fold (\<lambda>d r. if lab r = lab d then u (V df d) r else r) ns) df"
proof (induction ns arbitrary: df)
  case Nil
  then show ?case by simp
next
  case (Cons d ns)
  have "fold step (d # ns) df = fold step ns (step d df)" by simp
  also have "\<dots> = map (fold (\<lambda>d r. if lab r = lab d then u (V df d) r else r) ns) (step d df)"
    unfolding Cons.IH [of "step d df"] inv [of d df] ..
  also have "\<dots> = map (fold (\<lambda>d r. if lab r = lab d then u (V df d) r else r) (d # ns)) df"
    by (simp add: step comp_def)
  finally show ?case .
qed

lemma fold_row_by_label:
  assumes lab: "\<And>x r. lab (u x r) = lab r"
    and idem: "\<And>x r. u x (u x r) = u x r"
    and only: "\<forall>d \<in> set ns. lab d = lab r \<longrightarrow> d = r0"
    and same: "lab r = lab r0"
  shows "fold (\<lambda>d r. if lab r = lab d then u (W d) r else r) ns r
           = (if r0 \<in> set ns then u (W r0) r else r)"
  using only same
proof (induction ns arbitrary: r)
  case Nil
  then show ?case by simp
next
  case (Cons d ns)
  show ?case
  proof (cases "lab r = lab d")
    case True
    with Cons.prems have d: "d = r0" by simp
    have "fold (\<lambda>d r. if lab r = lab d then u (W d) r else r) ns (u (W r0) r)
            = (if r0 \<in> set ns then u (W r0) (u (W r0) r) else u (W r0) r)"
      using Cons.prems by (intro Cons.IH) (simp_all add: lab)
    then show ?thesis using True d by (simp add: idem)
  next
    case False
    with Cons.prems have "d \<noteq> r0" by auto
    moreover have "fold (\<lambda>d r. if lab r = lab d then u (W d) r else r) ns r
            = (if r0 \<in> set ns then u (W r0) r else r)"
      using Cons.prems by (intro Cons.IH) simp_all
    ultimately show ?thesis using False by auto
  qed
qed

lemma window_sum_cols:
  "window_sum col df data =
     np_sum (map (\<lambda>(l, d, c). c)
       (filter (\<lambda>(l, d, c). l = full_loc_name data
                  \<and> (d \<le> case_record.date data \<and> d > case_record.date data - days_7))
          (map (\<lambda>r. (full_loc_name r, case_record.date r, col r)) df)))"
  by (simp add: window_sum_def filter_map comp_def)

lemma window_sum_cong:
  assumes "map (\<lambda>r. (full_loc_name r, case_record.date r, col r)) df
         = map (\<lambda>r. (full_loc_name r, case_record.date r, col r)) df'"
    and "full_loc_name data = full_loc_name data'"
    and "case_record.date data = case_record.date data'"
  shows "window_sum col df data = window_sum col df' data'"
  using assms by (simp add: window_sum_cols)

lemma window_sum_cols_cong:
  "window_cols col df = window_cols col df' \<Longrightarrow> window_sum col df = window_sum col df'"
  by (rule ext) (simp add: window_sum_cols window_cols_def)

lemma recalc_case_step:
  "recalc_case d df =
     map (\<lambda>r. if case_record.label r = case_record.label d
              then set_cases_7day (true_divide (window_sum new_cases df d) 7) r else r) df"
  by (simp add: recalc_case_def set_cases_7day_def)

lemma recalc_death_step:
  "recalc_death d df =
     map (\<lambda>r. if case_record.label r = case_record.label d
              then set_deaths_7day (true_divide (window_sum new_deaths df d) 7) r else r) df"
  by (simp add: recalc_death_def set_deaths_7day_def)

lemma window_cols_recalc_case:
  "window_cols col (recalc_case d df) = window_cols col df"
  if "\<And>x r. col (set_cases_7day x r) = col r"
  using that by (simp add: window_cols_def recalc_case_step comp_def set_cases_7day_def if_distrib cong: if_cong)

lemma window_sum_recalc_case:
  "window_sum new_cases (recalc_case d df) = window_sum new_cases df"
  by (rule window_sum_cols_cong, rule window_cols_recalc_case) (simp add: set_cases_7day_def)

lemma window_cols_recalc_death:
  "window_cols new_deaths (recalc_death d df) = window_cols new_deaths df"
  by (simp add: window_cols_def recalc_death_step comp_def set_deaths_7day_def if_distrib cong: if_cong)

lemma window_sum_recalc_death:
  "window_sum new_deaths (recalc_death d df) = window_sum new_deaths df"
  by (rule window_sum_cols_cong, rule window_cols_recalc_death)

lemma same_label_same_row:
  assumes "distinct (map lab df)" "d \<in> set df" "r \<in> set df" "lab d = lab r"
  shows "d = r"
  using assms by (meson distinct_map inj_onD)

lemma fold_recalc_case_distinct:
  assumes "distinct (map case_record.label df)"
  shows "fold recalc_case (nulls_case7day df) df =
           map (\<lambda>r. if new_cases_7day r = None
                    then set_cases_7day (true_divide (window_sum new_cases df r) 7) r else r) df"
proof -
  let ?W = "\<lambda>df d. true_divide (window_sum new_cases df d) 7"
  let ?F = "\<lambda>d r. if case_record.label r = case_record.label d then set_cases_7day (?W df d) r else r"
  have "fold recalc_case (nulls_case7day df) df = map (fold ?F (nulls_case7day df)) df"
    by (rule fold_by_label [where V = ?W and u = set_cases_7day and lab = case_record.label],
        rule recalc_case_step, simp add: window_sum_recalc_case)
  also have "\<dots> = map (\<lambda>r. if new_cases_7day r = None then set_cases_7day (?W df r) r else r) df"
  proof (rule map_cong [OF refl])
    fix r assume r: "r \<in> set df"
    have "fold ?F (nulls_case7day df) r
            = (if r \<in> set (nulls_case7day df) then set_cases_7day (?W df r) r else r)"
    proof (rule fold_row_by_label [where u = set_cases_7day and lab = case_record.label and W = "?W df"])
      show "\<forall>d \<in> set (nulls_case7day df). case_record.label d = case_record.label r \<longrightarrow> d = r"
        using same_label_same_row [OF assms _ r] by (auto simp: nulls_case7day_def)
    qed (simp_all add: set_cases_7day_def)
    then show "fold ?F (nulls_case7day df) r
            = (if new_cases_7day r = None then set_cases_7day (?W df r) r else r)"
      using r by (simp add: nulls_case7day_def)
  qed
  finally show ?thesis .
qed

lemma fold_recalc_death_distinct:
  assumes dist: "distinct (map case_record.label df)"
    and lab: "\<And>r. case_record.label (g r) = case_record.label r"
    and cols: "window_cols new_deaths (map g df) = window_cols new_deaths df"
  shows "fold recalc_death (nulls_death7day df) (map g df) =
           map (\<lambda>r. if new_deaths_7day r = None
                    then set_deaths_7day (true_divide (window_sum new_deaths df r) 7) (g r)
                    else g r) df"
proof -
  let ?W = "\<lambda>df d. true_divide (window_sum new_deaths df d) 7"
  let ?F = "\<lambda>df d r. if case_record.label r = case_record.label d then set_deaths_7day (?W df d) r else r"
  have w: "window_sum new_deaths (map g df) = window_sum new_deaths df"
    by (rule window_sum_cols_cong) (rule cols)
  have "fold recalc_death (nulls_death7day df) (map g df)
          = map (fold (?F (map g df)) (nulls_death7day df)) (map g df)"
    by (rule fold_by_label [where V = ?W and u = set_deaths_7day and lab = case_record.label],
        rule recalc_death_step, simp add: window_sum_recalc_death)
  also have "\<dots> = map (\<lambda>r. fold (?F df) (nulls_death7day df) (g r)) df"
    unfolding w by (simp add: comp_def)
  also have "\<dots> = map (\<lambda>r. if new_deaths_7day r = None then set_deaths_7day (?W df r) (g r) else g r) df"
  proof (rule map_cong [OF refl])
    fix r assume r: "r \<in> set df"
    have "fold (?F df) (nulls_death7day df) (g r)
            = (if r \<in> set (nulls_death7day df) then set_deaths_7day (?W df r) (g r) else g r)"
    proof (rule fold_row_by_label [where u = set_deaths_7day and lab = case_record.label and W = "?W df"])
      show "\<forall>d \<in> set (nulls_death7day df). case_record.label d = case_record.label (g r) \<longrightarrow> d = r"
        using same_label_same_row [OF dist _ r] by (auto simp: nulls_death7day_def lab)
    qed (simp_all add: set_deaths_7day_def lab)
    then show "fold (?F df) (nulls_death7day df) (g r)
            = (if new_deaths_7day r = None then set_deaths_7day (?W df r) (g r) else g r)"
      using r by (simp add: nulls_death7day_def)
  qed
  finally show ?thesis .
qed

lemma recalc_distinct:
  assumes "distinct (map case_record.label df)"
  shows "recalc df = map (recalc_row df) df"
proof -
  let ?g = "\<lambda>r. if new_cases_7day r = None
                 then set_cases_7day (true_divide (window_sum new_cases df r) 7) r else r"
  have "recalc df = fold recalc_death (nulls_death7day df) (map ?g df)"
    by (simp add: recalc_def fold_recalc_case_distinct [OF assms])
  also have "\<dots> = map (\<lambda>r. if new_deaths_7day r = None
                    then set_deaths_7day (true_divide (window_sum new_deaths df r) 7) (?g r)
                    else ?g r) df"
    by (rule fold_recalc_death_distinct [OF assms])
      (simp_all add: set_cases_7day_def window_cols_def comp_def if_distrib cong: if_cong)
  also have "\<dots> = map (recalc_row df) df"
  proof (rule map_cong [OF refl])
    fix r
    show "(if new_deaths_7day r = None
            then set_deaths_7day (true_divide (window_sum new_deaths df r) 7) (?g r) else ?g r)
          = recalc_row df r"
      by (cases r)
        (auto simp: recalc_row_def set_cases_7day_def set_deaths_7day_def split: option.splits)
  qed
  finally show ?thesis .
qed

lemma clean_cases_form:
  assumes "clean_cases df = Inr out"
  shows "\<exists>df2. those (map typed (kept_rows df)) = Some df2 \<and> out = recalc (fill_seed df2)"
  using assms
  by (auto simp: clean_cases_def kept_rows_def Let_def split: if_splits option.splits)

lemma typed_fields:
  assumes "typed q = Some r"
  shows "case_record.label r = raw_case.label q"
    and "raw_case.fips_code q = Some (case_record.fips_code r)"
    and "to_datetime (raw_case.date q) = Inr (case_record.date r)"
    and "new_cases_7day r = new_cases_7_day_rolling_avg q"
    and "new_deaths_7day r = new_deaths_7_day_rolling_avg q"
  using assms by (auto simp: typed_def split: option.splits sum.splits)

lemma kept_rows_filter: "\<exists>P. kept_rows df = filter P df"
proof -
  have "\<exists>P. drop_rows lab ls xs = filter P xs" for lab :: "raw_case \<Rightarrow> int" and ls xs
    unfolding drop_rows_def by blast
  then obtain P1 P2 where
    "drop_non_county (restrict_date df) = filter P1 (restrict_date df)"
    "drop_pr_dc (drop_non_county (restrict_date df)) = filter P2 (drop_non_county (restrict_date df))"
    unfolding drop_non_county_def drop_pr_dc_def by blast
  then have "kept_rows df = filter (\<lambda>r. (raw_case.date r < max_date \<and> P1 r) \<and> P2 r) df"
    by (simp add: kept_rows_def restrict_date_def)
  then show ?thesis by blast
qed

lemma kept_rows_subset: "set (kept_rows df) \<subseteq> set df"
  using kept_rows_filter [of df] by auto

lemma kept_rows_distinct:
  "distinct (map raw_case.label df) \<Longrightarrow> distinct (map raw_case.label (kept_rows df))"
  using kept_rows_filter [of df] by (auto simp: distinct_map_filter)

lemma typed_labels:
  "list_all2 (\<lambda>q r. typed q = Some r) qs rs \<Longrightarrow> map case_record.label rs = map raw_case.label qs"
  by (induction rule: list_all2_induct) (simp_all add: typed_fields)

lemma fill_seed_labels: "map case_record.label (fill_seed df) = map case_record.label df"
  by (simp add: fill_seed_def comp_def if_distrib cong: if_cong)

lemma clean_cases_distinct:
  assumes "clean_cases df = Inr out" and "distinct (map raw_case.label df)"
  shows "\<exists>df2. list_all2 (\<lambda>q r. typed q = Some r) (kept_rows df) df2
           \<and> out = map (recalc_row (fill_seed df2)) (fill_seed df2)"
proof -
  from clean_cases_form [OF assms(1)] obtain df2
    where t: "those (map typed (kept_rows df)) = Some df2" and out: "out = recalc (fill_seed df2)"
    by blast
  note l = those_map_Some [OF t]
  have "distinct (map case_record.label (fill_seed df2))"
    using kept_rows_distinct [OF assms(2)] by (simp add: fill_seed_labels typed_labels [OF l])
  then show ?thesis using l out by (auto simp: recalc_distinct)
qed

lemma clean_cases_rows:
  assumes run: "clean_cases df = Inr out" and dist: "distinct (map raw_case.label df)"
  shows "\<exists>pre. out = map (recalc_row pre) pre
         \<and> list_all2 (\<lambda>q r. \<exists>r2. typed q = Some r2
               \<and> r = recalc_row pre
                     (if case_record.date r2 < seed_cutoff
                      then r2\<lparr> new_cases_7day := Some (case new_cases_7day r2 of None \<Rightarrow> 0 | Some v \<Rightarrow> v),
                              new_deaths_7day := Some (case new_deaths_7day r2 of None \<Rightarrow> 0 | Some v \<Rightarrow> v) \<rparr>
                      else r2))
             (kept_rows df) out"
proof -
  let ?fill = "\<lambda>r2. if case_record.date r2 < seed_cutoff
                  then r2\<lparr> new_cases_7day := Some (case new_cases_7day r2 of None \<Rightarrow> 0 | Some v \<Rightarrow> v),
                          new_deaths_7day := Some (case new_deaths_7day r2 of None \<Rightarrow> 0 | Some v \<Rightarrow> v) \<rparr>
                  else r2"
  from clean_cases_distinct [OF run dist] obtain df2
    where l: "list_all2 (\<lambda>q r. typed q = Some r) (kept_rows df) df2"
      and out: "out = map (recalc_row (fill_seed df2)) (fill_seed df2)"
    by blast
  have out': "out = map (\<lambda>r2. recalc_row (fill_seed df2) (?fill r2)) df2"
    unfolding out by (simp add: fill_seed_def comp_def)
  have "list_all2 (\<lambda>q r2. \<exists>r2'. typed q = Some r2'
            \<and> recalc_row (fill_seed df2) (?fill r2) = recalc_row (fill_seed df2) (?fill r2'))
          (kept_rows df) df2"
    using l by (rule list_all2_mono) blast
  then have "list_all2 (\<lambda>q r. \<exists>r2. typed q = Some r2 \<and> r = recalc_row (fill_seed df2) (?fill r2))
          (kept_rows df) out"
    unfolding out' list_all2_map2 .
  with out show ?thesis by blast
qed

lemma recalc_row_fields:
  "case_record.label (recalc_row df r) = case_record.label r"
  "case_record.date (recalc_row df r) = case_record.date r"
  "full_loc_name (recalc_row df r) = full_loc_name r"
  "case_record.fips_code (recalc_row df r) = case_record.fips_code r"
  "case_record.new_cases (recalc_row df r) = case_record.new_cases r"
  "case_record.new_deaths (recalc_row df r) = case_record.new_deaths r"
  by (simp_all add: recalc_row_def)

lemma window_sum_recalc_rows:
  assumes "full_loc_name data = full_loc_name data'"
    and "case_record.date data = case_record.date data'"
  shows "window_sum case_record.new_cases (map (recalc_row pre) pre) data
           = window_sum case_record.new_cases pre data'"
    and "window_sum case_record.new_deaths (map (recalc_row pre) pre) data
           = window_sum case_record.new_deaths pre data'"
  using assms by (auto intro!: window_sum_cong simp: comp_def recalc_row_fields)

lemma window_sum_explicit:
  "window_sum col df r =
     np_sum (map col
       (filter (\<lambda>x. full_loc_name x = full_loc_name r
                   \<and> case_record.date r - 7 < case_record.date x
                   \<and> case_record.date x \<le> case_record.date r) df))"
  unfolding window_sum_def days_7_def
  by (rule arg_cong [where f = np_sum], rule arg_cong [where f = "map col"], rule filter_cong) auto

text \<open>
  Claim C1, as amended. Let the rows of the raw frame carry distinct index labels and let
  the cleaning return a table. The table holds one row for each raw row that the filters
  keep, in the same order and under the same label. If the date of such a row is on or
  after 2020-01-30 and the raw rolling average of the cases is null, the cleaned average is
  the \<^verbatim>\<open>float64\<close> quotient by 7 of the \<^verbatim>\<open>int64\<close> sum of \<^verbatim>\<open>new_cases\<close> over the rows of the
  table with the same \<^verbatim>\<open>full_loc_name\<close> and a date later than seven days before the row's
  date and not later than the row's date. The same holds for the deaths. Rows of another
  location are not in the sum.
\<close>

theorem rolling_average_recomputed:
  assumes "clean_cases df = Inr out" and "distinct (map raw_case.label df)"
  shows "list_all2
           (\<lambda>q r. case_record.label r = raw_case.label q
              \<and> to_datetime (raw_case.date q) = Inr (case_record.date r)
              \<and> (seed_cutoff \<le> case_record.date r \<and> new_cases_7_day_rolling_avg q = None \<longrightarrow>
                   new_cases_7day r =
                     Some (true_divide (np_sum (map case_record.new_cases
                        (filter (\<lambda>x. full_loc_name x = full_loc_name r
                                    \<and> case_record.date r - 7 < case_record.date x
                                    \<and> case_record.date x \<le> case_record.date r) out))) 7))
              \<and> (seed_cutoff \<le> case_record.date r \<and> new_deaths_7_day_rolling_avg q = None \<longrightarrow>
                   new_deaths_7day r =
                     Some (true_divide (np_sum (map case_record.new_deaths
                        (filter (\<lambda>x. full_loc_name x = full_loc_name r
                                    \<and> case_record.date r - 7 < case_record.date x
                                    \<and> case_record.date x \<le> case_record.date r) out))) 7)))
           (kept_rows df) out"
proof -
  from clean_cases_rows [OF assms] obtain pre where out: "out = map (recalc_row pre) pre"
    and l: "list_all2 (\<lambda>q r. \<exists>r2. typed q = Some r2
               \<and> r = recalc_row pre
                     (if case_record.date r2 < seed_cutoff
                      then r2\<lparr> new_cases_7day := Some (case new_cases_7day r2 of None \<Rightarrow> 0 | Some v \<Rightarrow> v),
                              new_deaths_7day := Some (case new_deaths_7day r2 of None \<Rightarrow> 0 | Some v \<Rightarrow> v) \<rparr>
                      else r2))
             (kept_rows df) out"
    by blast
  from l show ?thesis
  proof (rule list_all2_mono)
    fix q r
    assume "\<exists>r2. typed q = Some r2
               \<and> r = recalc_row pre
                     (if case_record.date r2 < seed_cutoff
                      then r2\<lparr> new_cases_7day := Some (case new_cases_7day r2 of None \<Rightarrow> 0 | Some v \<Rightarrow> v),
                              new_deaths_7day := Some (case new_deaths_7day r2 of None \<Rightarrow> 0 | Some v \<Rightarrow> v) \<rparr>
                      else r2)"
    then obtain r2 where t: "typed q = Some r2"
      and r: "r = recalc_row pre
                 (if case_record.date r2 < seed_cutoff
                  then r2\<lparr> new_cases_7day := Some (case new_cases_7day r2 of None \<Rightarrow> 0 | Some v \<Rightarrow> v),
                          new_deaths_7day := Some (case new_deaths_7day r2 of None \<Rightarrow> 0 | Some v \<Rightarrow> v) \<rparr>
                  else r2)"
      by blast
    note f = typed_fields [OF t]
    have same: "case_record.label r = case_record.label r2"
      "case_record.date r = case_record.date r2" "full_loc_name r = full_loc_name r2"
      unfolding r by (simp_all add: recalc_row_fields)
    have c: "new_cases_7day r = Some (true_divide (window_sum case_record.new_cases out r) 7)"
      if "seed_cutoff \<le> case_record.date r" "new_cases_7_day_rolling_avg q = None"
    proof -
      from that same have "r = recalc_row pre r2" and "new_cases_7day r2 = None"
        using r f by simp_all
      then have "new_cases_7day r = Some (true_divide (window_sum case_record.new_cases pre r2) 7)"
        by (simp add: recalc_row_def)
      then show ?thesis
        unfolding out using window_sum_recalc_rows(1) [of r r2 pre] same by simp
    qed
    have d: "new_deaths_7day r = Some (true_divide (window_sum case_record.new_deaths out r) 7)"
      if "seed_cutoff \<le> case_record.date r" "new_deaths_7_day_rolling_avg q = None"
    proof -
      from that same have "r = recalc_row pre r2" and "new_deaths_7day r2 = None"
        using r f by simp_all
      then have "new_deaths_7day r = Some (true_divide (window_sum case_record.new_deaths pre r2) 7)"
        by (simp add: recalc_row_def)
      then show ?thesis
        unfolding out using window_sum_recalc_rows(2) [of r r2 pre] same by simp
    qed
    from f same c d
    show "case_record.label r = raw_case.label q
              \<and> to_datetime (raw_case.date q) = Inr (case_record.date r)
              \<and> (seed_cutoff \<le> case_record.date r \<and> new_cases_7_day_rolling_avg q = None \<longrightarrow>
                   new_cases_7day r =
                     Some (true_divide (np_sum (map case_record.new_cases
                        (filter (\<lambda>x. full_loc_name x = full_loc_name r
                                    \<and> case_record.date r - 7 < case_record.date x
                                    \<and> case_record.date x \<le> case_record.date r) out))) 7))
              \<and> (seed_cutoff \<le> case_record.date r \<and> new_deaths_7_day_rolling_avg q = None \<longrightarrow>
                   new_deaths_7day r =
                     Some (true_divide (np_sum (map case_record.new_deaths
                        (filter (\<lambda>x. full_loc_name x = full_loc_name r
                                    \<and> case_record.date r - 7 < case_record.date x
                                    \<and> case_record.date x \<le> case_record.date r) out))) 7))"
      unfolding window_sum_explicit [symmetric] by simp
  qed
qed

text \<open>
  Claim C4, as amended. Under the same hypotheses, the row of the table that belongs to a
  kept raw row dated before 2020-01-30 keeps a raw average that is not null and gets 0 for
  a null one, for cases and for deaths: the window sum is not taken for it.
\<close>

theorem seed_period_filled:
  assumes "clean_cases df = Inr out" and "distinct (map raw_case.label df)"
  shows "list_all2
           (\<lambda>q r. case_record.label r = raw_case.label q
              \<and> to_datetime (raw_case.date q) = Inr (case_record.date r)
              \<and> (case_record.date r < seed_cutoff \<longrightarrow>
                   new_cases_7day r
                     = Some (case new_cases_7_day_rolling_avg q of None \<Rightarrow> 0 | Some v \<Rightarrow> v)
                 \<and> new_deaths_7day r
                     = Some (case new_deaths_7_day_rolling_avg q of None \<Rightarrow> 0 | Some v \<Rightarrow> v)))
           (kept_rows df) out"
proof -
  from clean_cases_rows [OF assms] obtain pre where
    l: "list_all2 (\<lambda>q r. \<exists>r2. typed q = Some r2
               \<and> r = recalc_row pre
                     (if case_record.date r2 < seed_cutoff
                      then r2\<lparr> new_cases_7day := Some (case new_cases_7day r2 of None \<Rightarrow> 0 | Some v \<Rightarrow> v),
                              new_deaths_7day := Some (case new_deaths_7day r2 of None \<Rightarrow> 0 | Some v \<Rightarrow> v) \<rparr>
                      else r2))
             (kept_rows df) out"
    by blast
  from l show ?thesis
  proof (rule list_all2_mono)
    fix q r
    assume "\<exists>r2. typed q = Some r2
               \<and> r = recalc_row pre
                     (if case_record.date r2 < seed_cutoff
                      then r2\<lparr> new_cases_7day := Some (case new_cases_7day r2 of None \<Rightarrow> 0 | Some v \<Rightarrow> v),
                              new_deaths_7day := Some (case new_deaths_7day r2 of None \<Rightarrow> 0 | Some v \<Rightarrow> v) \<rparr>
                      else r2)"
    then obtain r2 where t: "typed q = Some r2"
      and r: "r = recalc_row pre
                 (if case_record.date r2 < seed_cutoff
                  then r2\<lparr> new_cases_7day := Some (case new_cases_7day r2 of None \<Rightarrow> 0 | Some v \<Rightarrow> v),
                          new_deaths_7day := Some (case new_deaths_7day r2 of None \<Rightarrow> 0 | Some v \<Rightarrow> v) \<rparr>
                  else r2)"
      by blast
    note f = typed_fields [OF t]
    have same: "case_record.label r = case_record.label r2"
      "case_record.date r = case_record.date r2"
      unfolding r by (simp_all add: recalc_row_fields)
    have "new_cases_7day r = Some (case new_cases_7_day_rolling_avg q of None \<Rightarrow> 0 | Some v \<Rightarrow> v)
        \<and> new_deaths_7day r = Some (case new_deaths_7_day_rolling_avg q of None \<Rightarrow> 0 | Some v \<Rightarrow> v)"
      if "case_record.date r < seed_cutoff"
      using that same f unfolding r by (simp add: recalc_row_def)
    with f same
    show "case_record.label r = raw_case.label q
              \<and> to_datetime (raw_case.date q) = Inr (case_record.date r)
              \<and> (case_record.date r < seed_cutoff \<longrightarrow>
                   new_cases_7day r
                     = Some (case new_cases_7_day_rolling_avg q of None \<Rightarrow> 0 | Some v \<Rightarrow> v)
                 \<and> new_deaths_7day r
                     = Some (case new_deaths_7_day_rolling_avg q of None \<Rightarrow> 0 | Some v \<Rightarrow> v))"
      by simp
  qed
qed

lemma fold_preserves_map:
  assumes "\<And>d df. map f (step d df) = map f df"
  shows "map f (fold step ns df) = map f df"
  by (induction ns arbitrary: df) (simp_all add: assms)

lemma fips_date_recalc: "map fips_date (recalc df) = map fips_date df"
proof -
  have a: "map fips_date (recalc_case d df) = map fips_date df" for d df
    by (simp add: recalc_case_def fips_date_def comp_def if_distrib cong: if_cong)
  have b: "map fips_date (recalc_death d df) = map fips_date df" for d df
    by (simp add: recalc_death_def fips_date_def comp_def if_distrib cong: if_cong)
  show ?thesis
    unfolding recalc_def
    using fold_preserves_map [where f = fips_date and step = recalc_death, OF b]
      fold_preserves_map [where f = fips_date and step = recalc_case, OF a]
    by simp
qed

lemma fips_date_fill_seed: "map fips_date (fill_seed df) = map fips_date df"
  by (simp add: fill_seed_def fips_date_def comp_def if_distrib cong: if_cong)

lemma typed_keys:
  "list_all2 (\<lambda>q r. typed q = Some r) qs rs \<Longrightarrow>
     map (\<lambda>q. (raw_case.fips_code q, to_datetime (raw_case.date q))) qs
       = map (\<lambda>k. (Some (fst k), Inr (snd k))) (map fips_date rs)"
  by (induction rule: list_all2_induct) (simp_all add: typed_fields fips_date_def)

lemma distinct_map_inj: "inj f \<Longrightarrow> distinct (map f xs) = distinct xs"
  by (auto simp: distinct_map intro: inj_on_subset)

text \<open>
  Claim C5, as amended. The cleaning neither merges nor removes duplicates: the pairs of
  FIPS code and date are distinct in the cleaned table if and only if the pairs of FIPS
  code and parsed date are distinct among the raw rows that the filters keep.
\<close>

theorem fips_date_unique:
  assumes "clean_cases df = Inr out"
  shows "distinct (map fips_date out)
           = distinct (map (\<lambda>q. (raw_case.fips_code q, to_datetime (raw_case.date q))) (kept_rows df))"
proof -
  from clean_cases_form [OF assms] obtain df2
    where t: "those (map typed (kept_rows df)) = Some df2" and out: "out = recalc (fill_seed df2)"
    by blast
  have "inj (\<lambda>k :: int \<times> timestamp. (Some (fst k), (Inr (snd k) :: error + timestamp)))"
    by (auto simp: inj_on_def prod_eq_iff)
  from distinct_map_inj [OF this, of "map fips_date df2"]
  have "distinct (map (\<lambda>k :: int \<times> timestamp. (Some (fst k), (Inr (snd k) :: error + timestamp)))
                 (map fips_date df2)) = distinct (map fips_date df2)" .
  then show ?thesis
    unfolding out fips_date_recalc fips_date_fill_seed typed_keys [OF those_map_Some [OF t]] ..
qed

lemma example_cases_run: "clean_cases example_cases = Inr example_cleaned_cases"
  by code_simp

lemma example_cases_labels: "distinct (map raw_case.label example_cases)"
  by code_simp

lemma example_cases_kept: "kept_rows example_cases = take 13 example_cases"
  by code_simp

text \<open>
  C1 on the example frame: the eighth of ten consecutive days has a null average; the
  window holds the counts of the days 2 to 8, the recomputed value is their mean 5, and
  the 700 cases that the other county reports on that day do not enter.
\<close>

theorem rolling_average_recomputed_witness:
  "clean_cases example_cases = Inr example_cleaned_cases \<and>
   distinct (map raw_case.label example_cases) \<and>
   kept_rows example_cases ! 9 = example_cases ! 9 \<and>
   new_cases_7_day_rolling_avg (example_cases ! 9) = None \<and>
   new_deaths_7_day_rolling_avg (example_cases ! 9) = None \<and>
   seed_cutoff \<le> case_record.date (example_cleaned_cases ! 9) \<and>
   new_cases_7day (example_cleaned_cases ! 9) =
     Some (true_divide (np_sum (map case_record.new_cases
        (filter (\<lambda>x. full_loc_name x = full_loc_name (example_cleaned_cases ! 9)
                    \<and> case_record.date (example_cleaned_cases ! 9) - 7 < case_record.date x
                    \<and> case_record.date x \<le> case_record.date (example_cleaned_cases ! 9))
           example_cleaned_cases))) 7) \<and>
   new_deaths_7day (example_cleaned_cases ! 9) =
     Some (true_divide (np_sum (map case_record.new_deaths
        (filter (\<lambda>x. full_loc_name x = full_loc_name (example_cleaned_cases ! 9)
                    \<and> case_record.date (example_cleaned_cases ! 9) - 7 < case_record.date x
                    \<and> case_record.date x \<le> case_record.date (example_cleaned_cases ! 9))
           example_cleaned_cases))) 7) \<and>
   map case_record.new_cases
     (filter (\<lambda>x. full_loc_name x = full_loc_name (example_cleaned_cases ! 9)
                 \<and> case_record.date (example_cleaned_cases ! 9) - 7 < case_record.date x
                 \<and> case_record.date x \<le> case_record.date (example_cleaned_cases ! 9))
        example_cleaned_cases) = [2, 3, 4, 5, 6, 7, 8] \<and>
   np_sum [2, 3, 4, 5, 6, 7, 8] = 35 \<and>
   true_divide 35 7 = 5 \<and>
   new_cases_7day (example_cleaned_cases ! 9) = Some 5 \<and>
   new_deaths_7day (example_cleaned_cases ! 9) = Some 2"
proof -
  let ?r = "example_cleaned_cases ! 9"
  have kept: "kept_rows example_cases ! 9 = example_cases ! 9"
    "9 < length (kept_rows example_cases)"
    unfolding example_cases_kept by (simp_all add: example_cases_def)
  have late: "seed_cutoff \<le> case_record.date ?r" by code_simp
  have nulls: "new_cases_7_day_rolling_avg (example_cases ! 9) = None"
    "new_deaths_7_day_rolling_avg (example_cases ! 9) = None"
    by (simp_all add: example_cases_def raw_row_def)
  have window: "map case_record.new_cases
     (filter (\<lambda>x. full_loc_name x = full_loc_name ?r
                 \<and> case_record.date ?r - 7 < case_record.date x
                 \<and> case_record.date x \<le> case_record.date ?r)
        example_cleaned_cases) = [2, 3, 4, 5, 6, 7, 8]"
    by code_simp
  have sum: "np_sum [2, 3, 4, 5, 6, 7, 8] = 35" "true_divide 35 7 = 5"
    by code_simp+
  have vals: "new_cases_7day ?r = Some 5" "new_deaths_7day ?r = Some 2"
    by (simp_all add: example_cleaned_cases_def case_row_def)
  from list_all2_nthD [OF rolling_average_recomputed [OF example_cases_run example_cases_labels]
      kept(2)] nulls late
  have "new_cases_7day ?r =
     Some (true_divide (np_sum (map case_record.new_cases
        (filter (\<lambda>x. full_loc_name x = full_loc_name ?r
                    \<and> case_record.date ?r - 7 < case_record.date x
                    \<and> case_record.date x \<le> case_record.date ?r)
           example_cleaned_cases))) 7)"
    "new_deaths_7day ?r =
     Some (true_divide (np_sum (map case_record.new_deaths
        (filter (\<lambda>x. full_loc_name x = full_loc_name ?r
                    \<and> case_record.date ?r - 7 < case_record.date x
                    \<and> case_record.date x \<le> case_record.date ?r)
           example_cleaned_cases))) 7)"
    unfolding kept(1) by simp_all
  with example_cases_run example_cases_labels kept(1) nulls late window sum vals
  show ?thesis by blast
qed

text \<open>
  Claim C1 as stated fails: when two rows carry the same index label, the assignment by
  label writes each quotient into both. The row of Orange has a null average and a window
  sum of 7, and ends with the average 3 of the row of Kern, not with 1.
\<close>

theorem rolling_average_recomputed_counterexample:
  "clean_cases example_shared_label_cases
     = Inr [case_row 0 18322 6059 ''orange'' ''California'' 7 (Some 3) 0 (Some 0),
            case_row 0 18322 6029 ''kern'' ''California'' 21 (Some 3) 0 (Some 0)] \<and>
   new_cases_7_day_rolling_avg (example_shared_label_cases ! 0) = None \<and>
   seed_cutoff \<le> 18322 \<and>
   window_sum case_record.new_cases
     [case_row 0 18322 6059 ''orange'' ''California'' 7 (Some 3) 0 (Some 0),
      case_row 0 18322 6029 ''kern'' ''California'' 21 (Some 3) 0 (Some 0)]
     (case_row 0 18322 6059 ''orange'' ''California'' 7 (Some 3) 0 (Some 0)) = 7 \<and>
   true_divide 7 7 = 1 \<and>
   new_cases_7day (case_row 0 18322 6059 ''orange'' ''California'' 7 (Some 3) 0 (Some 0))
     \<noteq> Some (true_divide 7 7)"
  by code_simp

text \<open>
  C4 on the example frame: the row of 2020-01-25 has a null average and three new cases in
  its window, and is cleaned to the average 0; the row of the next day keeps its 1.5.
\<close>

theorem seed_period_filled_witness:
  "clean_cases example_cases = Inr example_cleaned_cases \<and>
   distinct (map raw_case.label example_cases) \<and>
   kept_rows example_cases ! 0 = example_cases ! 0 \<and>
   kept_rows example_cases ! 1 = example_cases ! 1 \<and>
   case_record.date (example_cleaned_cases ! 0) < seed_cutoff \<and>
   new_cases_7_day_rolling_avg (example_cases ! 0) = None \<and>
   new_cases_7day (example_cleaned_cases ! 0) = Some 0 \<and>
   new_deaths_7day (example_cleaned_cases ! 0) = Some 0 \<and>
   window_sum case_record.new_cases example_cleaned_cases (example_cleaned_cases ! 0) = 3 \<and>
   case_record.date (example_cleaned_cases ! 1) < seed_cutoff \<and>
   new_cases_7_day_rolling_avg (example_cases ! 1) = Some (3 / 2) \<and>
   new_cases_7day (example_cleaned_cases ! 1) = Some (3 / 2)"
proof -
  let ?a = "example_cleaned_cases ! 0" and ?b = "example_cleaned_cases ! 1"
  have kept: "kept_rows example_cases ! 0 = example_cases ! 0"
    "kept_rows example_cases ! 1 = example_cases ! 1"
    "0 < length (kept_rows example_cases)" "1 < length (kept_rows example_cases)"
    unfolding example_cases_kept by (simp_all add: example_cases_def)
  have early: "case_record.date ?a < seed_cutoff" "case_record.date ?b < seed_cutoff"
    by code_simp+
  have cells: "new_cases_7_day_rolling_avg (example_cases ! 0) = None"
    "new_deaths_7_day_rolling_avg (example_cases ! 0) = None"
    "new_cases_7_day_rolling_avg (example_cases ! 1) = Some (3 / 2)"
    by (simp_all add: example_cases_def raw_row_def)
  have sum: "window_sum case_record.new_cases example_cleaned_cases ?a = 3"
    by code_simp
  note t = seed_period_filled [OF example_cases_run example_cases_labels]
  from list_all2_nthD [OF t kept(3)] list_all2_nthD [OF t kept(4)] early
  have "new_cases_7day ?a
          = Some (case new_cases_7_day_rolling_avg (example_cases ! 0) of None \<Rightarrow> 0 | Some v \<Rightarrow> v)"
    "new_deaths_7day ?a
          = Some (case new_deaths_7_day_rolling_avg (example_cases ! 0) of None \<Rightarrow> 0 | Some v \<Rightarrow> v)"
    "new_cases_7day ?b
          = Some (case new_cases_7_day_rolling_avg (example_cases ! 1) of None \<Rightarrow> 0 | Some v \<Rightarrow> v)"
    unfolding kept(1) kept(2) by simp_all
  with cells example_cases_run example_cases_labels kept(1) kept(2) early sum
  show ?thesis by simp
qed

text \<open>
  Claim C4 as stated fails: the row of 2020-01-25 has null averages and shares its index
  label with the row of 2020-03-01, whose averages are null and recomputed. The quotients
  1 and 2 of that row are written under the label and replace the two zeros.
\<close>

theorem seed_period_filled_counterexample:
  "clean_cases example_shared_label_seed
     = Inr [case_row 0 18286 6059 ''orange'' ''California'' 3 (Some 1) 0 (Some 2),
            case_row 0 18322 6059 ''orange'' ''California'' 7 (Some 1) 14 (Some 2)] \<and>
   raw_case.date (example_shared_label_seed ! 0) = ''2020-01-25'' \<and>
   18286 < seed_cutoff \<and>
   new_cases_7_day_rolling_avg (example_shared_label_seed ! 0) = None \<and>
   new_deaths_7_day_rolling_avg (example_shared_label_seed ! 0) = None \<and>
   new_cases_7day (case_row 0 18286 6059 ''orange'' ''California'' 3 (Some 1) 0 (Some 2))
     = Some 1 \<and>
   new_deaths_7day (case_row 0 18286 6059 ''orange'' ''California'' 3 (Some 1) 0 (Some 2))
     = Some 2"
  by code_simp

text \<open>
  C5 on the example frame, whose kept rows have distinct pairs.
\<close>

theorem fips_date_unique_witness:
  "clean_cases example_cases = Inr example_cleaned_cases \<and>
   distinct (map (\<lambda>q. (raw_case.fips_code q, to_datetime (raw_case.date q))) (kept_rows example_cases)) \<and>
   distinct (map fips_date example_cleaned_cases)"
proof -
  have "distinct (map fips_date example_cleaned_cases)" by code_simp
  with fips_date_unique [OF example_cases_run] example_cases_run show ?thesis by simp
qed

lemma example_duplicate_cases_run:
  "clean_cases example_duplicate_cases =
     Inr [case_row 0 18322 6059 ''orange'' ''California'' 1 (Some 1) 0 (Some 0),
          case_row 1 18322 6059 ''orange'' ''California'' 1 (Some 1) 0 (Some 0)]"
  by code_simp

text \<open>
  Claim C5 as stated fails: a raw frame that holds the same county and day in two rows is
  cleaned to a table with two records for one pair of FIPS code and date.
\<close>

theorem fips_date_unique_counterexample:
  "fst (clean_covid_data example_remote Map.empty (Some example_duplicate_cases)
          ''./data/covid_timeseries.csv'' ''./data/covid_timeseries_cleaned.csv'' False False)
     = Inr [case_row 0 18322 6059 ''orange'' ''California'' 1 (Some 1) 0 (Some 0),
            case_row 1 18322 6059 ''orange'' ''California'' 1 (Some 1) 0 (Some 0)] \<and>
   fips_date (case_row 0 18322 6059 ''orange'' ''California'' 1 (Some 1) 0 (Some 0)) = (6059, 18322) \<and>
   fips_date (case_row 1 18322 6059 ''orange'' ''California'' 1 (Some 1) 0 (Some 0)) = (6059, 18322) \<and>
   case_record.label (case_row 0 18322 6059 ''orange'' ''California'' 1 (Some 1) 0 (Some 0))
     \<noteq> case_record.label (case_row 1 18322 6059 ''orange'' ''California'' 1 (Some 1) 0 (Some 0))"
  by (simp add: clean_covid_data_def save_cases_def example_duplicate_cases_run fips_date_def
      case_row_def)

subsection \<open>The cache\<close>

lemma load_covid_data_frame:
  assumes "p \<noteq> path"
  shows "load_covid_data net (fs(p := x)) path force_reload
           = (fst (load_covid_data net fs path force_reload),
              (snd (load_covid_data net fs path force_reload))(p := x))"
  using assms
  by (auto simp: load_covid_data_def fun_upd_twist split: option.splits table.splits)

lemma save_cases_frame:
  assumes "p \<noteq> clean_path"
  shows "save_cases net (fs(p := x)) clean_path df
           = (fst (save_cases net fs clean_path df),
              (snd (save_cases net fs clean_path df))(p := x))"
  using assms by (auto simp: save_cases_def fun_upd_twist split: sum.splits)

lemma clean_covid_data_frame:
  assumes "p \<noteq> path" "p \<noteq> clean_path"
  shows "clean_covid_data net (fs(p := x)) df path clean_path force_reload force_reclean
           = (fst (clean_covid_data net fs df path clean_path force_reload force_reclean),
              (snd (clean_covid_data net fs df path clean_path force_reload force_reclean))(p := x))"
proof (cases df)
  case (Some raw)
  then show ?thesis using assms by (simp add: clean_covid_data_def save_cases_frame)
next
  case None
  show ?thesis
  proof (cases "fs clean_path \<noteq> None \<and> \<not> force_reclean")
    case True
    then show ?thesis using None assms
      by (auto simp: clean_covid_data_def split: option.splits table.splits)
  next
    case False
    obtain r fs' where l: "load_covid_data net fs path force_reload = (r, fs')"
      by (cases "load_covid_data net fs path force_reload")
    then have l': "load_covid_data net (fs(p := x)) path force_reload = (r, fs'(p := x))"
      using load_covid_data_frame [OF assms(1), of net fs x force_reload] by simp
    show ?thesis
      using False None assms l l'
      by (cases r) (auto simp: clean_covid_data_def save_cases_frame)
  qed
qed

lemma read_csv_case_exact: "map (read_csv_case (\<lambda>x. x)) df = df"
  by (simp add: read_csv_case_def option.map_ident map_idI)

lemma clean_policy_data_given:
  "fst (clean_policy_data u net fs (Some pdf) cleaned_timeseries_path ppath pclean_path
          force_reload force_reclean)
     = (case fst (clean_covid_data net fs None ''./data/covid_timeseries.csv''
                    cleaned_timeseries_path False False) of
          Inl e \<Rightarrow> Inl e
        | Inr timeseries_df \<Rightarrow> clean_policies u pdf timeseries_df)"
  by (simp add: clean_policy_data_def save_policies_def split: sum.splits prod.splits)

text \<open>
  Claim C10. Called with a frame, \<^verbatim>\<open>clean_covid_data\<close> returns the cleaning of that frame
  whatever the files hold and whatever the two flags are, and writes the result over the
  cache file, from which it is read with its floats parsed again;
  \<^verbatim>\<open>clean_policy_data\<close> cleans the given frame against the fetched case table, and its
  result does not depend on the content of its own cache file nor on the flags. Only a call
  without a frame returns the cached table, when the file is there and \<^verbatim>\<open>force_reclean\<close>
  is off.
\<close>

theorem frame_bypasses_cache:
  "fst (clean_covid_data net fs (Some df) path clean_path force_reload force_reclean)
     = clean_cases df \<and>
   snd (clean_covid_data net fs (Some df) path clean_path force_reload force_reclean) clean_path
     = (case clean_cases df of
          Inl e \<Rightarrow> fs clean_path
        | Inr out \<Rightarrow> Some (CleanCases (map (read_csv_case (read_float net)) out))) \<and>
   fst (clean_policy_data u net fs (Some pdf) cleaned_timeseries_path ppath pclean_path
          force_reload force_reclean)
     = (case fst (clean_covid_data net fs None ''./data/covid_timeseries.csv''
                    cleaned_timeseries_path False False) of
          Inl e \<Rightarrow> Inl e
        | Inr timeseries_df \<Rightarrow> clean_policies u pdf timeseries_df) \<and>
   (pclean_path \<noteq> cleaned_timeseries_path \<and> pclean_path \<noteq> ''./data/covid_timeseries.csv'' \<longrightarrow>
      fst (clean_policy_data u net (fs(pclean_path := x)) (Some pdf) cleaned_timeseries_path ppath
             pclean_path force_reload force_reclean)
        = fst (clean_policy_data u net fs (Some pdf) cleaned_timeseries_path ppath pclean_path
                 force_reload' force_reclean')) \<and>
   (fs clean_path = Some (CleanCases cached) \<and> \<not> force_reclean \<longrightarrow>
      clean_covid_data net fs None path clean_path force_reload force_reclean = (Inr cached, fs)) \<and>
   (fs pclean_path = Some (CleanPolicies pcached) \<and> \<not> force_reclean \<longrightarrow>
      clean_policy_data u net fs None cleaned_timeseries_path ppath pclean_path
        force_reload force_reclean = (Inr pcached, fs))"
proof -
  have a: "fst (clean_covid_data net fs (Some df) path clean_path force_reload force_reclean)
     = clean_cases df"
    by (simp add: clean_covid_data_def save_cases_def split: sum.splits)
  have b: "snd (clean_covid_data net fs (Some df) path clean_path force_reload force_reclean) clean_path
     = (case clean_cases df of
          Inl e \<Rightarrow> fs clean_path
        | Inr out \<Rightarrow> Some (CleanCases (map (read_csv_case (read_float net)) out)))"
    by (simp add: clean_covid_data_def save_cases_def split: sum.splits)
  have c: "fst (clean_policy_data u net fs (Some pdf) cleaned_timeseries_path ppath pclean_path
          fr frc)
     = (case fst (clean_covid_data net fs None ''./data/covid_timeseries.csv''
                    cleaned_timeseries_path False False) of
          Inl e \<Rightarrow> Inl e
        | Inr timeseries_df \<Rightarrow> clean_policies u pdf timeseries_df)" for fs fr frc
    by (rule clean_policy_data_given)
  have d: "fst (clean_policy_data u net (fs(pclean_path := x)) (Some pdf) cleaned_timeseries_path ppath
             pclean_path force_reload force_reclean)
        = fst (clean_policy_data u net fs (Some pdf) cleaned_timeseries_path ppath pclean_path
                 force_reload' force_reclean')"
    if "pclean_path \<noteq> cleaned_timeseries_path" "pclean_path \<noteq> ''./data/covid_timeseries.csv''"
    unfolding c
    using clean_covid_data_frame [of pclean_path "''./data/covid_timeseries.csv''"
        cleaned_timeseries_path net fs x None False False] that
    by simp
  have e: "clean_covid_data net fs None path clean_path force_reload force_reclean = (Inr cached, fs)"
    if "fs clean_path = Some (CleanCases cached)" "\<not> force_reclean"
    using that by (simp add: clean_covid_data_def)
  have f: "clean_policy_data u net fs None cleaned_timeseries_path ppath pclean_path
        force_reload force_reclean = (Inr pcached, fs)"
    if "fs pclean_path = Some (CleanPolicies pcached)" "\<not> force_reclean"
    using that by (simp add: clean_policy_data_def)
  from a b c [of fs force_reload force_reclean] d e f show ?thesis by blast
qed

text \<open>
  C10 on files that hold both caches: without a frame the cached tables come back, with a
  frame the cleaned frame does.
\<close>

theorem frame_bypasses_cache_witness:
  "example_cached_files ''./data/covid_timeseries_cleaned.csv'' = Some (CleanCases example_timeseries) \<and>
   clean_covid_data example_remote example_cached_files None ''./data/covid_timeseries.csv''
     ''./data/covid_timeseries_cleaned.csv'' False False = (Inr example_timeseries, example_cached_files) \<and>
   fst (clean_covid_data example_remote example_cached_files (Some example_cases)
          ''./data/covid_timeseries.csv'' ''./data/covid_timeseries_cleaned.csv'' False False)
     = Inr example_cleaned_cases \<and>
   snd (clean_covid_data example_remote example_cached_files (Some example_cases)
          ''./data/covid_timeseries.csv'' ''./data/covid_timeseries_cleaned.csv'' False False)
       ''./data/covid_timeseries_cleaned.csv''
     = Some (CleanCases example_cleaned_cases) \<and>
   example_cached_files ''./data/covid_policies_cleaned.csv'' = Some (CleanPolicies []) \<and>
   clean_policy_data example_us example_remote example_cached_files None
     ''./data/covid_timeseries_cleaned.csv'' ''./data/covid_policies.csv''
     ''./data/covid_policies_cleaned.csv'' False False = (Inr [], example_cached_files) \<and>
   fst (clean_policy_data example_us example_remote example_cached_files (Some example_policies)
          ''./data/covid_timeseries_cleaned.csv'' ''./data/covid_policies.csv''
          ''./data/covid_policies_cleaned.csv'' False False)
     = Inr example_cleaned_policies"
proof -
  have c1: "example_cached_files ''./data/covid_timeseries_cleaned.csv''
      = Some (CleanCases example_timeseries)"
    and c2: "example_cached_files ''./data/covid_policies_cleaned.csv'' = Some (CleanPolicies [])"
    by (simp_all add: example_cached_files_def example_files_def)
  note t = frame_bypasses_cache [of example_remote example_cached_files example_cases
      "''./data/covid_timeseries.csv''" "''./data/covid_timeseries_cleaned.csv''" False False
      example_us example_policies "''./data/covid_timeseries_cleaned.csv''"
      "''./data/covid_policies.csv''" "''./data/covid_policies_cleaned.csv''" None False False
      example_timeseries "[]"]
  from t c1 have r1: "clean_covid_data example_remote example_cached_files None
      ''./data/covid_timeseries.csv'' ''./data/covid_timeseries_cleaned.csv'' False False
      = (Inr example_timeseries, example_cached_files)" by blast
  from t c2 have r2: "clean_policy_data example_us example_remote example_cached_files None
     ''./data/covid_timeseries_cleaned.csv'' ''./data/covid_policies.csv''
     ''./data/covid_policies_cleaned.csv'' False False = (Inr [], example_cached_files)" by blast
  from t have r3: "fst (clean_covid_data example_remote example_cached_files (Some example_cases)
          ''./data/covid_timeseries.csv'' ''./data/covid_timeseries_cleaned.csv'' False False)
     = Inr example_cleaned_cases"
    and r4: "snd (clean_covid_data example_remote example_cached_files (Some example_cases)
          ''./data/covid_timeseries.csv'' ''./data/covid_timeseries_cleaned.csv'' False False)
       ''./data/covid_timeseries_cleaned.csv''
     = Some (CleanCases example_cleaned_cases)"
    by (simp_all add: example_cases_run example_remote_def read_csv_case_exact)
  from t r1 have r5: "fst (clean_policy_data example_us example_remote example_cached_files
          (Some example_policies)
          ''./data/covid_timeseries_cleaned.csv'' ''./data/covid_policies.csv''
          ''./data/covid_policies_cleaned.csv'' False False)
     = Inr example_cleaned_policies"
    by (simp add: example_policies_run)
  from c1 c2 r1 r2 r3 r4 r5 show ?thesis by blast
qed

end
